theory Spec2Isabelle
  imports Main "HOL-Library.Word"
begin

unbundle bit_operations_syntax

section \<open>Values of the Go runtime that endpoint.go handles\<close>

text \<open>
  \<^verbatim>\<open>endpoint.go\<close> of package \<^verbatim>\<open>ipv4\<close> wraps a \<^verbatim>\<open>net.Conn\<close> or a
  \<^verbatim>\<open>net.PacketConn\<close>. Both are Go interfaces: a value is either the nil interface or a
  concrete value together with its dynamic type. The dynamic type decides the outcome of
  the type assertions \<^verbatim>\<open>c.(net.Conn)\<close> and \<^verbatim>\<open>c.(*net.IPConn)\<close> of the constructors.
  A pointer is an \<open>option\<close>: \<open>None\<close> is the nil pointer, and the nil interface likewise.
  A non-nil interface value can hold a nil pointer, as \<^verbatim>\<open>net.PacketConn((*net.IPConn)(nil))\<close>
  does: it has its dynamic type, passes the type assertions and compares unequal to nil.
\<close>

text \<open>
  The concrete types that can be stored in a \<^verbatim>\<open>net.PacketConn\<close>: the three of package
  \<^verbatim>\<open>net\<close>, and a user-defined type, numbered, with a flag telling whether its method
  set also covers \<^verbatim>\<open>net.Conn\<close> (Read, Write and RemoteAddr besides the shared methods).
\<close>

datatype packet_type = UDPConn | IPConn | UnixConn | UserPacketConn nat bool

fun implements_Conn :: "packet_type \<Rightarrow> bool" where
  "implements_Conn UDPConn = True"
| "implements_Conn IPConn = True"
| "implements_Conn UnixConn = True"
| "implements_Conn (UserPacketConn n b) = b"

text \<open>
  The value in a non-nil interface: its dynamic type and the pointer it holds, \<open>None\<close>
  when that pointer is nil.
\<close>

record packet_val =
  val_type :: packet_type
  val_ref :: "nat option"

type_synonym net_PacketConn = "packet_val option"

text \<open>
  What a \<^verbatim>\<open>net.Conn\<close> can hold: a packet connection seen through its stream view, or a
  value of any other type (such as \<^verbatim>\<open>*net.TCPConn\<close>), numbered.
\<close>

datatype conn_val = PacketView packet_val | StreamConn nat

type_synonym net_Conn = "conn_val option"

text \<open>\<^verbatim>\<open>*net.IPConn\<close>: a pointer, \<open>None\<close> when nil.\<close>

type_synonym IPConn_ptr = "nat option"

text \<open>The connection of type \<^verbatim>\<open>*net.IPConn\<close> behind the non-nil pointer \<open>p\<close>.\<close>

definition IPConn_val :: "nat \<Rightarrow> packet_val" where
  "IPConn_val p = \<lparr>val_type = IPConn, val_ref = Some p\<rparr>"

text \<open>
  \<^verbatim>\<open>error\<close> values. \<^verbatim>\<open>syscall.EINVAL\<close> is errno 22; an absent error is \<open>None\<close>.
\<close>

datatype error = Errno nat | NetError string

abbreviation EINVAL :: error where
  "EINVAL \<equiv> Errno 22"

type_synonym Time = int

text \<open>
  Modelled from the spec: \<^verbatim>\<open>ControlFlags\<close> and \<^verbatim>\<open>rawOpt\<close> are declared outside
  \<^verbatim>\<open>endpoint.go\<close>. The spec calls the first an opaque set of bit flags naming the
  requested per-packet metadata classes, and the second the handler-local record of the
  classes currently requested.
\<close>

type_synonym ControlFlags = "64 word"

type_synonym rawOpt = ControlFlags

text \<open>
  A function that panics returns \<open>Panic\<close>; otherwise \<open>Ret\<close> carries what it returns.
\<close>

datatype 'a outcome = Panic | Ret 'a

section \<open>The collaborators\<close>

text \<open>
  Each method of the file ends in a call of code that lives elsewhere: the deadline
  setters and \<^verbatim>\<open>Close\<close> of the wrapped connection, the handler's \<^verbatim>\<open>sysfd\<close>, and the
  package functions \<^verbatim>\<open>setControlMessage\<close> and \<^verbatim>\<open>setIPv4HeaderPrepend\<close>. The state of
  the world outside the endpoint is the history of these calls, oldest first; each
  collaborator answers as a function of the history so far and of its arguments.
  The collaborators are parameters of every method below, gathered in the record \<open>os\<close>.
  \<^verbatim>\<open>setControlMessage\<close> receives a pointer to the handler's \<^verbatim>\<open>rawOpt\<close>: it is handed the
  record and returns the record it leaves behind. A collaborator is taken to return: it
  neither panics nor blocks for ever.
\<close>

datatype os_call =
    CallSysfd packet_val
  | CallSetControlMessage int ControlFlags bool
  | CallSetIPv4HeaderPrepend int bool
  | CallSetDeadline packet_val Time
  | CallSetReadDeadline packet_val Time
  | CallSetWriteDeadline packet_val Time
  | CallClose packet_val

type_synonym history = "os_call list"

record os =
  sysfd :: "history \<Rightarrow> packet_val \<Rightarrow> error + int"
  setControlMessage :: "history \<Rightarrow> int \<Rightarrow> rawOpt \<Rightarrow> ControlFlags \<Rightarrow> bool \<Rightarrow> error option \<times> rawOpt"
  setIPv4HeaderPrepend :: "history \<Rightarrow> int \<Rightarrow> bool \<Rightarrow> error option"
  conn_SetDeadline :: "history \<Rightarrow> packet_val \<Rightarrow> Time \<Rightarrow> error option"
  conn_SetReadDeadline :: "history \<Rightarrow> packet_val \<Rightarrow> Time \<Rightarrow> error option"
  conn_SetWriteDeadline :: "history \<Rightarrow> packet_val \<Rightarrow> Time \<Rightarrow> error option"
  conn_Close :: "history \<Rightarrow> packet_val \<Rightarrow> error option"

section \<open>The option bundles and the endpoints\<close>

record genericOpt =
  genericOpt_c :: net_Conn

record dgramOpt =
  dgramOpt_c :: net_PacketConn

text \<open>
  Modelled from the spec: \<^verbatim>\<open>payloadHandler\<close> and \<^verbatim>\<open>packetHandler\<close> are declared outside
  \<^verbatim>\<open>endpoint.go\<close>. The spec gives each control handler the connection reference and a
  mutable raw option state; the constructors below store a \<^verbatim>\<open>net.PacketConn\<close> in the
  first and the \<^verbatim>\<open>*net.IPConn\<close> of a type assertion in the second.
\<close>

record payloadHandler =
  payloadHandler_c :: net_PacketConn
  payloadHandler_rawOpt :: rawOpt

record packetHandler =
  packetHandler_c :: IPConn_ptr
  packetHandler_rawOpt :: rawOpt

record Conn =
  Conn_genericOpt :: genericOpt

record PacketConn =
  PacketConn_genericOpt :: genericOpt
  PacketConn_dgramOpt :: dgramOpt
  PacketConn_payloadHandler :: payloadHandler

record RawConn =
  RawConn_genericOpt :: genericOpt
  RawConn_dgramOpt :: dgramOpt
  RawConn_packetHandler :: packetHandler

text \<open>
  \<^verbatim>\<open>func (c *genericOpt) ok() bool { return c != nil && c.c != nil }\<close>, and the same for
  \<^verbatim>\<open>dgramOpt\<close>. The receiver is a pointer and may be nil.
\<close>

fun genericOpt_ok :: "genericOpt option \<Rightarrow> bool" where
  "genericOpt_ok None = False"
| "genericOpt_ok (Some c) = (genericOpt_c c \<noteq> None)"

fun dgramOpt_ok :: "dgramOpt option \<Rightarrow> bool" where
  "dgramOpt_ok None = False"
| "dgramOpt_ok (Some c) = (dgramOpt_c c \<noteq> None)"

text \<open>
  Modelled from the spec: the \<^verbatim>\<open>ok\<close> methods of \<^verbatim>\<open>payloadHandler\<close> and
  \<^verbatim>\<open>packetHandler\<close> are defined outside \<^verbatim>\<open>endpoint.go\<close>. The spec's contract for
  \<^verbatim>\<open>ok()\<close>: true iff the handle itself is a valid reference and the wrapped connection
  reference is non-null.
\<close>

fun payloadHandler_ok :: "payloadHandler option \<Rightarrow> bool" where
  "payloadHandler_ok None = False"
| "payloadHandler_ok (Some c) = (payloadHandler_c c \<noteq> None)"

fun packetHandler_ok :: "packetHandler option \<Rightarrow> bool" where
  "packetHandler_ok None = False"
| "packetHandler_ok (Some c) = (packetHandler_c c \<noteq> None)"

section \<open>Calls made through the wrapped connection\<close>

text \<open>
  A method call on the connection a handler wraps. Go panics on a method call through a
  nil interface value; no method of this file gets there, since every such call comes
  after the \<^verbatim>\<open>ok()\<close> guard. On a connection that is there, the collaborator answers
  and the call is entered in the history.
\<close>

fun call_SetDeadline :: "os \<Rightarrow> net_PacketConn \<Rightarrow> Time \<Rightarrow> history \<Rightarrow> error option outcome \<times> history" where
  "call_SetDeadline os None t h = (Panic, h)"
| "call_SetDeadline os (Some v) t h = (Ret (conn_SetDeadline os h v t), h @ [CallSetDeadline v t])"

fun call_SetReadDeadline :: "os \<Rightarrow> net_PacketConn \<Rightarrow> Time \<Rightarrow> history \<Rightarrow> error option outcome \<times> history" where
  "call_SetReadDeadline os None t h = (Panic, h)"
| "call_SetReadDeadline os (Some v) t h =
     (Ret (conn_SetReadDeadline os h v t), h @ [CallSetReadDeadline v t])"

fun call_SetWriteDeadline :: "os \<Rightarrow> net_PacketConn \<Rightarrow> Time \<Rightarrow> history \<Rightarrow> error option outcome \<times> history" where
  "call_SetWriteDeadline os None t h = (Panic, h)"
| "call_SetWriteDeadline os (Some v) t h =
     (Ret (conn_SetWriteDeadline os h v t), h @ [CallSetWriteDeadline v t])"

fun call_Close :: "os \<Rightarrow> net_PacketConn \<Rightarrow> history \<Rightarrow> error option outcome \<times> history" where
  "call_Close os None h = (Panic, h)"
| "call_Close os (Some v) h = (Ret (conn_Close os h v), h @ [CallClose v])"

text \<open>
  Modelled from the spec: the \<^verbatim>\<open>sysfd\<close> methods of \<^verbatim>\<open>payloadHandler\<close> and
  \<^verbatim>\<open>packetHandler\<close> are defined outside \<^verbatim>\<open>endpoint.go\<close>. The spec has them resolve the
  system file descriptor of the wrapped connection, failing with the descriptor-resolution
  error when there is none. They return \<^verbatim>\<open>(int, error)\<close>: \<open>Inl\<close> is a non-nil error,
  \<open>Inr\<close> the descriptor. The collaborator is entered with the value the handler wraps,
  which may hold a nil pointer (in \<^verbatim>\<open>NewRawConn\<close>, where no guard comes first). On a nil
  interface, which no call reaches (a \<^verbatim>\<open>payloadHandler\<close> is asked behind \<^verbatim>\<open>ok()\<close>
  only), resolution is given the panic of the method calls above.
\<close>

fun call_sysfd :: "os \<Rightarrow> net_PacketConn \<Rightarrow> history \<Rightarrow> (error + int) outcome \<times> history" where
  "call_sysfd os None h = (Panic, h)"
| "call_sysfd os (Some v) h = (Ret (sysfd os h v), h @ [CallSysfd v])"

text \<open>A method returns its \<^verbatim>\<open>error\<close> and leaves the receiver \<open>c\<close> as it is.\<close>

fun returning :: "'c \<Rightarrow> error option outcome \<times> history \<Rightarrow> (error option \<times> 'c) outcome \<times> history" where
  "returning c (Panic, h) = (Panic, h)"
| "returning c (Ret e, h) = (Ret (e, c), h)"

section \<open>PacketConn\<close>

text \<open>
  Every method has the pointer receiver \<^verbatim>\<open>c *PacketConn\<close>. With a nil \<open>c\<close> the selector
  \<^verbatim>\<open>c.payloadHandler\<close> is a nil pointer dereference: the method panics before \<^verbatim>\<open>ok()\<close>
  runs. A method returns its \<^verbatim>\<open>error\<close> together with the receiver as it leaves it.
\<close>

fun PacketConn_SetControlMessage ::
  "os \<Rightarrow> PacketConn option \<Rightarrow> ControlFlags \<Rightarrow> bool \<Rightarrow> history \<Rightarrow> (error option \<times> PacketConn) outcome \<times> history" where
  "PacketConn_SetControlMessage os None cf on h = (Panic, h)"
| "PacketConn_SetControlMessage os (Some c) cf on h =
     (if \<not> payloadHandler_ok (Some (PacketConn_payloadHandler c)) then (Ret (Some EINVAL, c), h)
      else case call_sysfd os (payloadHandler_c (PacketConn_payloadHandler c)) h of
          (Panic, h') \<Rightarrow> (Panic, h')
        | (Ret (Inl err), h') \<Rightarrow> (Ret (Some err, c), h')
        | (Ret (Inr fd), h') \<Rightarrow>
            (case setControlMessage os h' fd (payloadHandler_rawOpt (PacketConn_payloadHandler c)) cf on of
               (e, opt) \<Rightarrow>
                 (Ret (e, c\<lparr>PacketConn_payloadHandler :=
                              (PacketConn_payloadHandler c)\<lparr>payloadHandler_rawOpt := opt\<rparr>\<rparr>),
                  h' @ [CallSetControlMessage fd cf on])))"

fun PacketConn_SetDeadline ::
  "os \<Rightarrow> PacketConn option \<Rightarrow> Time \<Rightarrow> history \<Rightarrow> (error option \<times> PacketConn) outcome \<times> history" where
  "PacketConn_SetDeadline os None t h = (Panic, h)"
| "PacketConn_SetDeadline os (Some c) t h =
     (if \<not> payloadHandler_ok (Some (PacketConn_payloadHandler c)) then (Ret (Some EINVAL, c), h)
      else returning c (call_SetDeadline os (payloadHandler_c (PacketConn_payloadHandler c)) t h))"

fun PacketConn_SetReadDeadline ::
  "os \<Rightarrow> PacketConn option \<Rightarrow> Time \<Rightarrow> history \<Rightarrow> (error option \<times> PacketConn) outcome \<times> history" where
  "PacketConn_SetReadDeadline os None t h = (Panic, h)"
| "PacketConn_SetReadDeadline os (Some c) t h =
     (if \<not> payloadHandler_ok (Some (PacketConn_payloadHandler c)) then (Ret (Some EINVAL, c), h)
      else returning c (call_SetReadDeadline os (payloadHandler_c (PacketConn_payloadHandler c)) t h))"

fun PacketConn_SetWriteDeadline ::
  "os \<Rightarrow> PacketConn option \<Rightarrow> Time \<Rightarrow> history \<Rightarrow> (error option \<times> PacketConn) outcome \<times> history" where
  "PacketConn_SetWriteDeadline os None t h = (Panic, h)"
| "PacketConn_SetWriteDeadline os (Some c) t h =
     (if \<not> payloadHandler_ok (Some (PacketConn_payloadHandler c)) then (Ret (Some EINVAL, c), h)
      else returning c (call_SetWriteDeadline os (payloadHandler_c (PacketConn_payloadHandler c)) t h))"

fun PacketConn_Close ::
  "os \<Rightarrow> PacketConn option \<Rightarrow> history \<Rightarrow> (error option \<times> PacketConn) outcome \<times> history" where
  "PacketConn_Close os None h = (Panic, h)"
| "PacketConn_Close os (Some c) h =
     (if \<not> payloadHandler_ok (Some (PacketConn_payloadHandler c)) then (Ret (Some EINVAL, c), h)
      else returning c (call_Close os (payloadHandler_c (PacketConn_payloadHandler c)) h))"

section \<open>RawConn\<close>

text \<open>
  The same five methods on \<^verbatim>\<open>c *RawConn\<close>, through \<^verbatim>\<open>c.packetHandler\<close>, whose
  connection is a \<^verbatim>\<open>*net.IPConn\<close>. \<open>packetHandler_conn\<close> is that pointer as the
  collaborators receive it: the value of type \<^verbatim>\<open>*net.IPConn\<close> holding it. A method call
  on a nil \<^verbatim>\<open>*net.IPConn\<close> does not panic in Go: the collaborator is entered with the nil
  pointer and answers. The methods below keep a nil pointer away with \<^verbatim>\<open>ok()\<close>;
  \<^verbatim>\<open>NewRawConn\<close> does not.
\<close>

definition packetHandler_conn :: "packetHandler \<Rightarrow> net_PacketConn" where
  "packetHandler_conn ph = Some \<lparr>val_type = IPConn, val_ref = packetHandler_c ph\<rparr>"

fun RawConn_SetControlMessage ::
  "os \<Rightarrow> RawConn option \<Rightarrow> ControlFlags \<Rightarrow> bool \<Rightarrow> history \<Rightarrow> (error option \<times> RawConn) outcome \<times> history" where
  "RawConn_SetControlMessage os None cf on h = (Panic, h)"
| "RawConn_SetControlMessage os (Some c) cf on h =
     (if \<not> packetHandler_ok (Some (RawConn_packetHandler c)) then (Ret (Some EINVAL, c), h)
      else case call_sysfd os (packetHandler_conn (RawConn_packetHandler c)) h of
          (Panic, h') \<Rightarrow> (Panic, h')
        | (Ret (Inl err), h') \<Rightarrow> (Ret (Some err, c), h')
        | (Ret (Inr fd), h') \<Rightarrow>
            (case setControlMessage os h' fd (packetHandler_rawOpt (RawConn_packetHandler c)) cf on of
               (e, opt) \<Rightarrow>
                 (Ret (e, c\<lparr>RawConn_packetHandler :=
                              (RawConn_packetHandler c)\<lparr>packetHandler_rawOpt := opt\<rparr>\<rparr>),
                  h' @ [CallSetControlMessage fd cf on])))"

fun RawConn_SetDeadline ::
  "os \<Rightarrow> RawConn option \<Rightarrow> Time \<Rightarrow> history \<Rightarrow> (error option \<times> RawConn) outcome \<times> history" where
  "RawConn_SetDeadline os None t h = (Panic, h)"
| "RawConn_SetDeadline os (Some c) t h =
     (if \<not> packetHandler_ok (Some (RawConn_packetHandler c)) then (Ret (Some EINVAL, c), h)
      else returning c (call_SetDeadline os (packetHandler_conn (RawConn_packetHandler c)) t h))"

fun RawConn_SetReadDeadline ::
  "os \<Rightarrow> RawConn option \<Rightarrow> Time \<Rightarrow> history \<Rightarrow> (error option \<times> RawConn) outcome \<times> history" where
  "RawConn_SetReadDeadline os None t h = (Panic, h)"
| "RawConn_SetReadDeadline os (Some c) t h =
     (if \<not> packetHandler_ok (Some (RawConn_packetHandler c)) then (Ret (Some EINVAL, c), h)
      else returning c (call_SetReadDeadline os (packetHandler_conn (RawConn_packetHandler c)) t h))"

fun RawConn_SetWriteDeadline ::
  "os \<Rightarrow> RawConn option \<Rightarrow> Time \<Rightarrow> history \<Rightarrow> (error option \<times> RawConn) outcome \<times> history" where
  "RawConn_SetWriteDeadline os None t h = (Panic, h)"
| "RawConn_SetWriteDeadline os (Some c) t h =
     (if \<not> packetHandler_ok (Some (RawConn_packetHandler c)) then (Ret (Some EINVAL, c), h)
      else returning c (call_SetWriteDeadline os (packetHandler_conn (RawConn_packetHandler c)) t h))"

fun RawConn_Close ::
  "os \<Rightarrow> RawConn option \<Rightarrow> history \<Rightarrow> (error option \<times> RawConn) outcome \<times> history" where
  "RawConn_Close os None h = (Panic, h)"
| "RawConn_Close os (Some c) h =
     (if \<not> packetHandler_ok (Some (RawConn_packetHandler c)) then (Ret (Some EINVAL, c), h)
      else returning c (call_Close os (packetHandler_conn (RawConn_packetHandler c)) h))"

section \<open>The constructors\<close>

text \<open>
  The type assertions \<^verbatim>\<open>c.(net.Conn)\<close> and \<^verbatim>\<open>c.(*net.IPConn)\<close> are of the one-result
  form: they panic when \<open>c\<close> is the nil interface or its dynamic type does not fit.
  \<^verbatim>\<open>c.(*net.IPConn)\<close> yields the pointer \<open>c\<close> holds, which may be nil.
\<close>

fun assert_Conn :: "net_PacketConn \<Rightarrow> net_Conn outcome" where
  "assert_Conn None = Panic"
| "assert_Conn (Some v) = (if implements_Conn (val_type v) then Ret (Some (PacketView v)) else Panic)"

fun assert_IPConn :: "net_PacketConn \<Rightarrow> IPConn_ptr outcome" where
  "assert_IPConn None = Panic"
| "assert_IPConn (Some v) = (if val_type v = IPConn then Ret (val_ref v) else Panic)"

text \<open>\<^verbatim>\<open>NewConn\<close> returns the address of a fresh \<^verbatim>\<open>Conn\<close>: a pointer that is never nil.\<close>

definition NewConn :: "net_Conn \<Rightarrow> Conn option" where
  "NewConn c = Some \<lparr>Conn_genericOpt = \<lparr>genericOpt_c = c\<rparr>\<rparr>"

text \<open>The \<^verbatim>\<open>rawOpt\<close> of a fresh handler is Go's zero value: no class requested.\<close>

definition NewPacketConn :: "net_PacketConn \<Rightarrow> PacketConn option outcome" where
  "NewPacketConn c =
     (case assert_Conn c of
        Panic \<Rightarrow> Panic
      | Ret g \<Rightarrow>
          Ret (Some \<lparr>PacketConn_genericOpt = \<lparr>genericOpt_c = g\<rparr>,
                     PacketConn_dgramOpt = \<lparr>dgramOpt_c = c\<rparr>,
                     PacketConn_payloadHandler = \<lparr>payloadHandler_c = c, payloadHandler_rawOpt = 0\<rparr>\<rparr>))"

text \<open>\<^verbatim>\<open>NewRawConn\<close> returns \<^verbatim>\<open>(*RawConn, error)\<close>.\<close>

definition NewRawConn ::
  "os \<Rightarrow> net_PacketConn \<Rightarrow> history \<Rightarrow> (RawConn option \<times> error option) outcome \<times> history" where
  "NewRawConn os c h =
     (case assert_Conn c of
        Panic \<Rightarrow> (Panic, h)
      | Ret g \<Rightarrow>
          (case assert_IPConn c of
             Panic \<Rightarrow> (Panic, h)
           | Ret p \<Rightarrow>
               (let r = \<lparr>RawConn_genericOpt = \<lparr>genericOpt_c = g\<rparr>,
                         RawConn_dgramOpt = \<lparr>dgramOpt_c = c\<rparr>,
                         RawConn_packetHandler = \<lparr>packetHandler_c = p, packetHandler_rawOpt = 0\<rparr>\<rparr>
                in case call_sysfd os (packetHandler_conn (RawConn_packetHandler r)) h of
                     (Panic, h') \<Rightarrow> (Panic, h')
                   | (Ret (Inl err), h') \<Rightarrow> (Ret (None, Some err), h')
                   | (Ret (Inr fd), h') \<Rightarrow>
                       (case setIPv4HeaderPrepend os h' fd True of
                          Some err \<Rightarrow> (Ret (None, Some err), h' @ [CallSetIPv4HeaderPrepend fd True])
                        | None \<Rightarrow> (Ret (Some r, None), h' @ [CallSetIPv4HeaderPrepend fd True])))))"

section \<open>The public surface as one function\<close>

text \<open>
  The five public methods of a facade, as data, so that a statement can range over all
  of them.
\<close>

datatype public_method =
    SetControlMessage ControlFlags bool
  | SetDeadline Time
  | SetReadDeadline Time
  | SetWriteDeadline Time
  | Close

fun PacketConn_call ::
  "os \<Rightarrow> public_method \<Rightarrow> PacketConn option \<Rightarrow> history \<Rightarrow> (error option \<times> PacketConn) outcome \<times> history" where
  "PacketConn_call os (SetControlMessage cf on) c h = PacketConn_SetControlMessage os c cf on h"
| "PacketConn_call os (SetDeadline t) c h = PacketConn_SetDeadline os c t h"
| "PacketConn_call os (SetReadDeadline t) c h = PacketConn_SetReadDeadline os c t h"
| "PacketConn_call os (SetWriteDeadline t) c h = PacketConn_SetWriteDeadline os c t h"
| "PacketConn_call os Close c h = PacketConn_Close os c h"

fun RawConn_call ::
  "os \<Rightarrow> public_method \<Rightarrow> RawConn option \<Rightarrow> history \<Rightarrow> (error option \<times> RawConn) outcome \<times> history" where
  "RawConn_call os (SetControlMessage cf on) c h = RawConn_SetControlMessage os c cf on h"
| "RawConn_call os (SetDeadline t) c h = RawConn_SetDeadline os c t h"
| "RawConn_call os (SetReadDeadline t) c h = RawConn_SetReadDeadline os c t h"
| "RawConn_call os (SetWriteDeadline t) c h = RawConn_SetWriteDeadline os c t h"
| "RawConn_call os Close c h = RawConn_Close os c h"

section \<open>The option-setting collaborator, after the spec\<close>

text \<open>
  Modelled from the spec: \<^verbatim>\<open>setControlMessage\<close> is defined outside \<^verbatim>\<open>endpoint.go\<close>.
  The spec: given a file descriptor, a mutable raw option state, a set of control flags
  and an on/off intent, it has the OS apply or clear the corresponding socket options and
  reports success or failure; success updates the raw option state, so that the classes
  are requested from then on (or no longer), and failure leaves the prior state unchanged
  and surfaces the OS error unmodified. The OS-level update is the parameter \<open>sockopt\<close>.
\<close>

definition setControlMessage_spec ::
  "(history \<Rightarrow> int \<Rightarrow> ControlFlags \<Rightarrow> bool \<Rightarrow> error option) \<Rightarrow>
   history \<Rightarrow> int \<Rightarrow> rawOpt \<Rightarrow> ControlFlags \<Rightarrow> bool \<Rightarrow> error option \<times> rawOpt" where
  "setControlMessage_spec sockopt h fd opt cf on =
     (case sockopt h fd cf on of
        Some err \<Rightarrow> (Some err, opt)
      | None \<Rightarrow> (None, if on then opt OR cf else opt AND NOT cf))"

section \<open>A mock of the collaborators\<close>

text \<open>
  A small OS to run the endpoints on. A connection is closed once a \<^verbatim>\<open>Close\<close> of it is
  in the history; every call on a closed connection fails with the error of package
  \<^verbatim>\<open>net\<close>. The descriptor of an open connection is its reference number; a nil pointer
  has none, and resolving it fails with \<^verbatim>\<open>EINVAL\<close>. Setting a
  socket option fails with \<^verbatim>\<open>ENOPROTOOPT\<close> (errno 92) when a flag above bit 7 is asked for,
  and header prepending is refused with \<^verbatim>\<open>EPERM\<close> (errno 1) on descriptor 0.
\<close>

definition errClosing :: error where
  "errClosing = NetError ''use of closed network connection''"

definition is_closed :: "history \<Rightarrow> packet_val \<Rightarrow> bool" where
  "is_closed h v = (CallClose v \<in> set h)"

definition mock_sockopt :: "history \<Rightarrow> int \<Rightarrow> ControlFlags \<Rightarrow> bool \<Rightarrow> error option" where
  "mock_sockopt h fd cf on = (if 255 < cf then Some (Errno 92) else None)"

definition mock_os :: os where
  "mock_os =
     \<lparr>sysfd = (\<lambda>h v. case val_ref v of
                 None \<Rightarrow> Inl EINVAL
               | Some n \<Rightarrow> if is_closed h v then Inl errClosing else Inr (int n)),
      setControlMessage = setControlMessage_spec mock_sockopt,
      setIPv4HeaderPrepend = (\<lambda>h fd on. if fd = 0 then Some (Errno 1) else None),
      conn_SetDeadline = (\<lambda>h v t. if is_closed h v then Some errClosing else None),
      conn_SetReadDeadline = (\<lambda>h v t. if is_closed h v then Some errClosing else None),
      conn_SetWriteDeadline = (\<lambda>h v t. if is_closed h v then Some errClosing else None),
      conn_Close = (\<lambda>h v. if is_closed h v then Some errClosing else None)\<rparr>"

text \<open>Connections to build endpoints from.\<close>

definition udp1 :: packet_val where
  "udp1 = \<lparr>val_type = UDPConn, val_ref = Some 1\<rparr>"

definition ip7 :: packet_val where
  "ip7 = \<lparr>val_type = IPConn, val_ref = Some 7\<rparr>"

definition ip0 :: packet_val where
  "ip0 = \<lparr>val_type = IPConn, val_ref = Some 0\<rparr>"

definition packet_only :: packet_val where
  "packet_only = \<lparr>val_type = UserPacketConn 0 False, val_ref = Some 3\<rparr>"

text \<open>\<^verbatim>\<open>net.PacketConn((*net.IPConn)(nil))\<close>, and a \<^verbatim>\<open>*net.UnixConn\<close>.\<close>

definition ip_nil :: packet_val where
  "ip_nil = \<lparr>val_type = IPConn, val_ref = None\<rparr>"

definition unix2 :: packet_val where
  "unix2 = \<lparr>val_type = UnixConn, val_ref = Some 2\<rparr>"

text \<open>
  A second OS, on which the descriptor of a connection resolves whatever its state, to
  3 for a nil pointer, and the option setter is the one to report a closed descriptor.
\<close>

definition fd_closed :: "history \<Rightarrow> int \<Rightarrow> bool" where
  "fd_closed h fd =
     list_ex (\<lambda>c. case c of CallClose v \<Rightarrow> val_ref v = Some (nat fd) | _ \<Rightarrow> False) h"

definition late_os :: os where
  "late_os =
     mock_os
       \<lparr>sysfd := (\<lambda>h v. case val_ref v of None \<Rightarrow> Inr 3 | Some n \<Rightarrow> Inr (int n)),
        setControlMessage :=
          setControlMessage_spec
            (\<lambda>h fd cf on. if fd_closed h fd then Some errClosing else mock_sockopt h fd cf on)\<rparr>"

text \<open>The \<^verbatim>\<open>RawConn\<close> built over \<open>ip_nil\<close> when nothing fails.\<close>

definition ip_nil_RawConn :: RawConn where
  "ip_nil_RawConn =
     \<lparr>RawConn_genericOpt = \<lparr>genericOpt_c = Some (PacketView ip_nil)\<rparr>,
      RawConn_dgramOpt = \<lparr>dgramOpt_c = Some ip_nil\<rparr>,
      RawConn_packetHandler = \<lparr>packetHandler_c = None, packetHandler_rawOpt = 0\<rparr>\<rparr>"

text \<open>The endpoints the constructors build over them, and Go's zero values.\<close>

definition udp1_PacketConn :: PacketConn where
  "udp1_PacketConn =
     \<lparr>PacketConn_genericOpt = \<lparr>genericOpt_c = Some (PacketView udp1)\<rparr>,
      PacketConn_dgramOpt = \<lparr>dgramOpt_c = Some udp1\<rparr>,
      PacketConn_payloadHandler = \<lparr>payloadHandler_c = Some udp1, payloadHandler_rawOpt = 0\<rparr>\<rparr>"

definition ip7_RawConn :: RawConn where
  "ip7_RawConn =
     \<lparr>RawConn_genericOpt = \<lparr>genericOpt_c = Some (PacketView ip7)\<rparr>,
      RawConn_dgramOpt = \<lparr>dgramOpt_c = Some ip7\<rparr>,
      RawConn_packetHandler = \<lparr>packetHandler_c = Some 7, packetHandler_rawOpt = 0\<rparr>\<rparr>"

definition zero_PacketConn :: PacketConn where
  "zero_PacketConn =
     \<lparr>PacketConn_genericOpt = \<lparr>genericOpt_c = None\<rparr>,
      PacketConn_dgramOpt = \<lparr>dgramOpt_c = None\<rparr>,
      PacketConn_payloadHandler = \<lparr>payloadHandler_c = None, payloadHandler_rawOpt = 0\<rparr>\<rparr>"

definition zero_RawConn :: RawConn where
  "zero_RawConn =
     \<lparr>RawConn_genericOpt = \<lparr>genericOpt_c = None\<rparr>,
      RawConn_dgramOpt = \<lparr>dgramOpt_c = None\<rparr>,
      RawConn_packetHandler = \<lparr>packetHandler_c = None, packetHandler_rawOpt = 0\<rparr>\<rparr>"

text \<open>Endpoints with the classes of flags 5 already requested.\<close>

definition udp1_with_5 :: PacketConn where
  "udp1_with_5 = udp1_PacketConn\<lparr>PacketConn_payloadHandler :=
      \<lparr>payloadHandler_c = Some udp1, payloadHandler_rawOpt = 5\<rparr>\<rparr>"

definition ip7_with_5 :: RawConn where
  "ip7_with_5 = ip7_RawConn\<lparr>RawConn_packetHandler :=
      \<lparr>packetHandler_c = Some 7, packetHandler_rawOpt = 5\<rparr>\<rparr>"

text \<open>
  Endpoints with the control handlers of \<open>udp1_PacketConn\<close> and \<open>ip7_RawConn\<close>, and
  other \<^verbatim>\<open>genericOpt\<close> and \<^verbatim>\<open>dgramOpt\<close> fields.
\<close>

definition udp1_other :: PacketConn where
  "udp1_other =
     \<lparr>PacketConn_genericOpt = \<lparr>genericOpt_c = None\<rparr>,
      PacketConn_dgramOpt = \<lparr>dgramOpt_c = Some ip7\<rparr>,
      PacketConn_payloadHandler = \<lparr>payloadHandler_c = Some udp1, payloadHandler_rawOpt = 0\<rparr>\<rparr>"

definition ip7_other :: RawConn where
  "ip7_other =
     \<lparr>RawConn_genericOpt = \<lparr>genericOpt_c = Some (StreamConn 4)\<rparr>,
      RawConn_dgramOpt = \<lparr>dgramOpt_c = None\<rparr>,
      RawConn_packetHandler = \<lparr>packetHandler_c = Some 7, packetHandler_rawOpt = 0\<rparr>\<rparr>"

section \<open>What each method does, by readiness of its handler\<close>

lemma nil_receiver_panics:
  "PacketConn_call os m None h = (Panic, h)" "RawConn_call os m None h = (Panic, h)"
  by (cases m; simp)+

lemma PacketConn_not_ready:
  "\<not> payloadHandler_ok (Some (PacketConn_payloadHandler c)) \<Longrightarrow>
   PacketConn_call os m (Some c) h = (Ret (Some EINVAL, c), h)"
  by (cases m) simp_all

lemma RawConn_not_ready:
  "\<not> packetHandler_ok (Some (RawConn_packetHandler c)) \<Longrightarrow>
   RawConn_call os m (Some c) h = (Ret (Some EINVAL, c), h)"
  by (cases m) simp_all

lemma payloadHandler_ready:
  "payloadHandler_ok (Some ph) \<longleftrightarrow> (\<exists>v. payloadHandler_c ph = Some v)"
  by simp

lemma packetHandler_ready:
  "packetHandler_ok (Some ph) \<longleftrightarrow> (\<exists>p. packetHandler_c ph = Some p)"
  by simp

lemma packetHandler_conn_Some:
  "packetHandler_c ph = Some p \<Longrightarrow> packetHandler_conn ph = Some (IPConn_val p)"
  by (simp add: packetHandler_conn_def IPConn_val_def)

lemma PacketConn_ready_deadlines:
  "payloadHandler_c (PacketConn_payloadHandler c) = Some v \<Longrightarrow>
   PacketConn_call os (SetDeadline t) (Some c) h =
     (Ret (conn_SetDeadline os h v t, c), h @ [CallSetDeadline v t]) \<and>
   PacketConn_call os (SetReadDeadline t) (Some c) h =
     (Ret (conn_SetReadDeadline os h v t, c), h @ [CallSetReadDeadline v t]) \<and>
   PacketConn_call os (SetWriteDeadline t) (Some c) h =
     (Ret (conn_SetWriteDeadline os h v t, c), h @ [CallSetWriteDeadline v t]) \<and>
   PacketConn_call os Close (Some c) h = (Ret (conn_Close os h v, c), h @ [CallClose v])"
  by simp

lemma RawConn_ready_deadlines:
  "packetHandler_c (RawConn_packetHandler c) = Some p \<Longrightarrow> v = IPConn_val p \<Longrightarrow>
   RawConn_call os (SetDeadline t) (Some c) h =
     (Ret (conn_SetDeadline os h v t, c), h @ [CallSetDeadline v t]) \<and>
   RawConn_call os (SetReadDeadline t) (Some c) h =
     (Ret (conn_SetReadDeadline os h v t, c), h @ [CallSetReadDeadline v t]) \<and>
   RawConn_call os (SetWriteDeadline t) (Some c) h =
     (Ret (conn_SetWriteDeadline os h v t, c), h @ [CallSetWriteDeadline v t]) \<and>
   RawConn_call os Close (Some c) h = (Ret (conn_Close os h v, c), h @ [CallClose v])"
  by (simp add: packetHandler_conn_def IPConn_val_def)

lemma PacketConn_ready_SetControlMessage:
  "payloadHandler_c (PacketConn_payloadHandler c) = Some v \<Longrightarrow>
   PacketConn_call os (SetControlMessage cf on) (Some c) h =
     (case sysfd os h v of
        Inl err \<Rightarrow> (Ret (Some err, c), h @ [CallSysfd v])
      | Inr fd \<Rightarrow>
          (case setControlMessage os (h @ [CallSysfd v]) fd
                  (payloadHandler_rawOpt (PacketConn_payloadHandler c)) cf on of
             (e, opt) \<Rightarrow>
               (Ret (e, c\<lparr>PacketConn_payloadHandler :=
                            (PacketConn_payloadHandler c)\<lparr>payloadHandler_rawOpt := opt\<rparr>\<rparr>),
                h @ [CallSysfd v, CallSetControlMessage fd cf on])))"
  by (simp split: sum.splits prod.splits)

lemma RawConn_ready_SetControlMessage:
  "packetHandler_c (RawConn_packetHandler c) = Some p \<Longrightarrow> v = IPConn_val p \<Longrightarrow>
   RawConn_call os (SetControlMessage cf on) (Some c) h =
     (case sysfd os h v of
        Inl err \<Rightarrow> (Ret (Some err, c), h @ [CallSysfd v])
      | Inr fd \<Rightarrow>
          (case setControlMessage os (h @ [CallSysfd v]) fd
                  (packetHandler_rawOpt (RawConn_packetHandler c)) cf on of
             (e, opt) \<Rightarrow>
               (Ret (e, c\<lparr>RawConn_packetHandler :=
                            (RawConn_packetHandler c)\<lparr>packetHandler_rawOpt := opt\<rparr>\<rparr>),
                h @ [CallSysfd v, CallSetControlMessage fd cf on])))"
  by (simp add: packetHandler_conn_def IPConn_val_def split: sum.splits prod.splits)

section \<open>What NewRawConn does, by the kind of its argument\<close>

lemma IPConn_val_eq: "val_type v = IPConn \<Longrightarrow> \<lparr>val_type = IPConn, val_ref = val_ref v\<rparr> = v"
  by (cases v) simp

lemma NewRawConn_IPConn:
  "val_type v = IPConn \<Longrightarrow>
   NewRawConn os (Some v) h =
     (case sysfd os h v of
        Inl err \<Rightarrow> (Ret (None, Some err), h @ [CallSysfd v])
      | Inr fd \<Rightarrow>
          (case setIPv4HeaderPrepend os (h @ [CallSysfd v]) fd True of
             Some err \<Rightarrow>
               (Ret (None, Some err), h @ [CallSysfd v, CallSetIPv4HeaderPrepend fd True])
           | None \<Rightarrow>
               (Ret (Some \<lparr>RawConn_genericOpt = \<lparr>genericOpt_c = Some (PacketView v)\<rparr>,
                           RawConn_dgramOpt = \<lparr>dgramOpt_c = Some v\<rparr>,
                           RawConn_packetHandler =
                             \<lparr>packetHandler_c = val_ref v, packetHandler_rawOpt = 0\<rparr>\<rparr>,
                     None),
                h @ [CallSysfd v, CallSetIPv4HeaderPrepend fd True])))"
  by (simp add: NewRawConn_def packetHandler_conn_def IPConn_val_def IPConn_val_eq
      split: sum.splits option.splits)

lemma NewRawConn_not_IPConn:
  "val_type v \<noteq> IPConn \<Longrightarrow> NewRawConn os (Some v) h = (Panic, h)"
  by (simp add: NewRawConn_def split: outcome.splits)

section \<open>What a method can change\<close>

text \<open>
  Whatever the receiver, a method returns, and what it returns is decided by the control
  handler alone: the error, the handler it leaves behind and the history are the same for
  all receivers with that handler, and the rest of the receiver is handed back as it was.
\<close>

lemma PacketConn_call_frame:
  "\<exists>e ph' h'. \<forall>c. PacketConn_payloadHandler c = ph \<longrightarrow>
     PacketConn_call os m (Some c) h = (Ret (e, c\<lparr>PacketConn_payloadHandler := ph'\<rparr>), h')"
proof (cases "payloadHandler_c ph")
  case None
  then have "\<forall>c. PacketConn_payloadHandler c = ph \<longrightarrow>
     PacketConn_call os m (Some c) h = (Ret (Some EINVAL, c\<lparr>PacketConn_payloadHandler := ph\<rparr>), h)"
    by (auto simp add: PacketConn_not_ready)
  then show ?thesis by blast
next
  case (Some v)
  show ?thesis
  proof (cases m)
    case (SetControlMessage cf on)
    show ?thesis
    proof (cases "sysfd os h v")
      case (Inl err)
      with Some SetControlMessage
      have "\<forall>c. PacketConn_payloadHandler c = ph \<longrightarrow>
         PacketConn_call os m (Some c) h =
           (Ret (Some err, c\<lparr>PacketConn_payloadHandler := ph\<rparr>), h @ [CallSysfd v])"
        by auto
      then show ?thesis by blast
    next
      case (Inr fd)
      obtain e opt where
        "setControlMessage os (h @ [CallSysfd v]) fd (payloadHandler_rawOpt ph) cf on = (e, opt)"
        by (cases "setControlMessage os (h @ [CallSysfd v]) fd (payloadHandler_rawOpt ph) cf on")
      with Some SetControlMessage Inr
      have "\<forall>c. PacketConn_payloadHandler c = ph \<longrightarrow>
         PacketConn_call os m (Some c) h =
           (Ret (e, c\<lparr>PacketConn_payloadHandler := ph\<lparr>payloadHandler_rawOpt := opt\<rparr>\<rparr>),
            h @ [CallSysfd v, CallSetControlMessage fd cf on])"
        by auto
      then show ?thesis by blast
    qed
  next
    case (SetDeadline t)
    with Some have "\<forall>c. PacketConn_payloadHandler c = ph \<longrightarrow>
       PacketConn_call os m (Some c) h =
         (Ret (conn_SetDeadline os h v t, c\<lparr>PacketConn_payloadHandler := ph\<rparr>),
          h @ [CallSetDeadline v t])"
      by auto
    then show ?thesis by blast
  next
    case (SetReadDeadline t)
    with Some have "\<forall>c. PacketConn_payloadHandler c = ph \<longrightarrow>
       PacketConn_call os m (Some c) h =
         (Ret (conn_SetReadDeadline os h v t, c\<lparr>PacketConn_payloadHandler := ph\<rparr>),
          h @ [CallSetReadDeadline v t])"
      by auto
    then show ?thesis by blast
  next
    case (SetWriteDeadline t)
    with Some have "\<forall>c. PacketConn_payloadHandler c = ph \<longrightarrow>
       PacketConn_call os m (Some c) h =
         (Ret (conn_SetWriteDeadline os h v t, c\<lparr>PacketConn_payloadHandler := ph\<rparr>),
          h @ [CallSetWriteDeadline v t])"
      by auto
    then show ?thesis by blast
  next
    case Close
    with Some have "\<forall>c. PacketConn_payloadHandler c = ph \<longrightarrow>
       PacketConn_call os m (Some c) h =
         (Ret (conn_Close os h v, c\<lparr>PacketConn_payloadHandler := ph\<rparr>), h @ [CallClose v])"
      by auto
    then show ?thesis by blast
  qed
qed

lemma RawConn_call_frame:
  "\<exists>e ph' h'. \<forall>c. RawConn_packetHandler c = ph \<longrightarrow>
     RawConn_call os m (Some c) h = (Ret (e, c\<lparr>RawConn_packetHandler := ph'\<rparr>), h')"
proof (cases "packetHandler_c ph")
  case None
  then have "\<forall>c. RawConn_packetHandler c = ph \<longrightarrow>
     RawConn_call os m (Some c) h = (Ret (Some EINVAL, c\<lparr>RawConn_packetHandler := ph\<rparr>), h)"
    by (auto simp add: RawConn_not_ready)
  then show ?thesis by blast
next
  case (Some p)
  show ?thesis
  proof (cases m)
    case (SetControlMessage cf on)
    show ?thesis
    proof (cases "sysfd os h (IPConn_val p)")
      case (Inl err)
      with Some SetControlMessage
      have "\<forall>c. RawConn_packetHandler c = ph \<longrightarrow>
         RawConn_call os m (Some c) h =
           (Ret (Some err, c\<lparr>RawConn_packetHandler := ph\<rparr>), h @ [CallSysfd (IPConn_val p)])"
        by (auto simp add: packetHandler_conn_def IPConn_val_def)
      then show ?thesis by blast
    next
      case (Inr fd)
      obtain e opt where
        "setControlMessage os (h @ [CallSysfd (IPConn_val p)]) fd (packetHandler_rawOpt ph) cf on = (e, opt)"
        by (cases "setControlMessage os (h @ [CallSysfd (IPConn_val p)]) fd (packetHandler_rawOpt ph) cf on")
      with Some SetControlMessage Inr
      have "\<forall>c. RawConn_packetHandler c = ph \<longrightarrow>
         RawConn_call os m (Some c) h =
           (Ret (e, c\<lparr>RawConn_packetHandler := ph\<lparr>packetHandler_rawOpt := opt\<rparr>\<rparr>),
            h @ [CallSysfd (IPConn_val p), CallSetControlMessage fd cf on])"
        by (auto simp add: packetHandler_conn_def IPConn_val_def)
      then show ?thesis by blast
    qed
  next
    case (SetDeadline t)
    with Some have "\<forall>c. RawConn_packetHandler c = ph \<longrightarrow>
       RawConn_call os m (Some c) h =
         (Ret (conn_SetDeadline os h (IPConn_val p) t, c\<lparr>RawConn_packetHandler := ph\<rparr>),
          h @ [CallSetDeadline (IPConn_val p) t])"
      by (auto simp add: packetHandler_conn_def IPConn_val_def)
    then show ?thesis by blast
  next
    case (SetReadDeadline t)
    with Some have "\<forall>c. RawConn_packetHandler c = ph \<longrightarrow>
       RawConn_call os m (Some c) h =
         (Ret (conn_SetReadDeadline os h (IPConn_val p) t, c\<lparr>RawConn_packetHandler := ph\<rparr>),
          h @ [CallSetReadDeadline (IPConn_val p) t])"
      by (auto simp add: packetHandler_conn_def IPConn_val_def)
    then show ?thesis by blast
  next
    case (SetWriteDeadline t)
    with Some have "\<forall>c. RawConn_packetHandler c = ph \<longrightarrow>
       RawConn_call os m (Some c) h =
         (Ret (conn_SetWriteDeadline os h (IPConn_val p) t, c\<lparr>RawConn_packetHandler := ph\<rparr>),
          h @ [CallSetWriteDeadline (IPConn_val p) t])"
      by (auto simp add: packetHandler_conn_def IPConn_val_def)
    then show ?thesis by blast
  next
    case Close
    with Some have "\<forall>c. RawConn_packetHandler c = ph \<longrightarrow>
       RawConn_call os m (Some c) h =
         (Ret (conn_Close os h (IPConn_val p), c\<lparr>RawConn_packetHandler := ph\<rparr>), h @ [CallClose (IPConn_val p)])"
      by (auto simp add: packetHandler_conn_def IPConn_val_def)
    then show ?thesis by blast
  qed
qed

text \<open>
  A failing \<^verbatim>\<open>SetControlMessage\<close> over the option setter of the spec leaves the receiver
  as it was.
\<close>

lemma setControlMessage_spec_failure:
  "setControlMessage_spec sockopt h fd opt cf on = (Some err, opt') \<Longrightarrow> opt' = opt"
  by (simp add: setControlMessage_spec_def split: option.splits)

lemma PacketConn_failure_keeps_receiver:
  assumes "PacketConn_SetControlMessage (os\<lparr>setControlMessage := setControlMessage_spec sockopt\<rparr>)
             (Some c) cf on h = (Ret (Some err, c'), h')"
  shows "c' = c"
proof (cases "payloadHandler_c (PacketConn_payloadHandler c)")
  case None
  with assms show ?thesis by simp
next
  case (Some v)
  with assms show ?thesis
    by (auto simp add: setControlMessage_spec_def split: sum.splits option.splits)
qed

lemma RawConn_failure_keeps_receiver:
  assumes "RawConn_SetControlMessage (os\<lparr>setControlMessage := setControlMessage_spec sockopt\<rparr>)
             (Some c) cf on h = (Ret (Some err, c'), h')"
  shows "c' = c"
proof (cases "packetHandler_c (RawConn_packetHandler c)")
  case None
  with assms show ?thesis by simp
next
  case (Some p)
  with assms show ?thesis
    by (auto simp add: setControlMessage_spec_def packetHandler_conn_def IPConn_val_def
        split: sum.splits option.splits)
qed

section \<open>The mock, evaluated\<close>

lemma mock_os_simps:
  "sysfd mock_os h v =
     (case val_ref v of
        None \<Rightarrow> Inl EINVAL
      | Some n \<Rightarrow> if is_closed h v then Inl errClosing else Inr (int n))"
  "setControlMessage mock_os = setControlMessage_spec mock_sockopt"
  "setIPv4HeaderPrepend mock_os h fd on = (if fd = 0 then Some (Errno 1) else None)"
  "conn_SetDeadline mock_os h v t = (if is_closed h v then Some errClosing else None)"
  "conn_SetReadDeadline mock_os h v t = (if is_closed h v then Some errClosing else None)"
  "conn_SetWriteDeadline mock_os h v t = (if is_closed h v then Some errClosing else None)"
  "conn_Close mock_os h v = (if is_closed h v then Some errClosing else None)"
  by (simp_all add: mock_os_def)

section \<open>The guard and the delegation\<close>

text \<open>
  C1. On a \<^verbatim>\<open>PacketConn\<close> or \<^verbatim>\<open>RawConn\<close> in any state, each of \<^verbatim>\<open>SetControlMessage\<close>,
  \<^verbatim>\<open>SetDeadline\<close>, \<^verbatim>\<open>SetReadDeadline\<close>, \<^verbatim>\<open>SetWriteDeadline\<close> and \<^verbatim>\<open>Close\<close> first asks
  \<^verbatim>\<open>ok()\<close> of its control handler. When that is false, the method returns
  \<^verbatim>\<open>syscall.EINVAL\<close>, the history of OS calls is the one it started with and the receiver
  is untouched. When it is true, the deadline setters and \<^verbatim>\<open>Close\<close> make exactly one call,
  of the same method on the wrapped connection with the same argument, and return its
  result; \<^verbatim>\<open>SetControlMessage\<close> resolves the descriptor once, returns the resolution
  error if there is one, and otherwise calls \<^verbatim>\<open>setControlMessage\<close> once on that
  descriptor and the handler's \<^verbatim>\<open>rawOpt\<close>, returning its result. Nothing is retried and
  nothing else of the receiver changes. (A nil receiver pointer is no state of a
  receiver: there the selector panics and \<^verbatim>\<open>ok()\<close> is never asked, see
  \<open>nil_receiver_panics\<close>.)
\<close>

theorem facade_guard_then_delegate:
  "(\<not> payloadHandler_ok (Some (PacketConn_payloadHandler c)) \<longrightarrow>
      PacketConn_call os m (Some c) h = (Ret (Some EINVAL, c), h)) \<and>
   (payloadHandler_ok (Some (PacketConn_payloadHandler c)) \<longrightarrow>
      (\<exists>v. payloadHandler_c (PacketConn_payloadHandler c) = Some v \<and>
        PacketConn_call os (SetDeadline t) (Some c) h =
          (Ret (conn_SetDeadline os h v t, c), h @ [CallSetDeadline v t]) \<and>
        PacketConn_call os (SetReadDeadline t) (Some c) h =
          (Ret (conn_SetReadDeadline os h v t, c), h @ [CallSetReadDeadline v t]) \<and>
        PacketConn_call os (SetWriteDeadline t) (Some c) h =
          (Ret (conn_SetWriteDeadline os h v t, c), h @ [CallSetWriteDeadline v t]) \<and>
        PacketConn_call os Close (Some c) h = (Ret (conn_Close os h v, c), h @ [CallClose v]) \<and>
        PacketConn_call os (SetControlMessage cf on) (Some c) h =
          (case sysfd os h v of
             Inl err \<Rightarrow> (Ret (Some err, c), h @ [CallSysfd v])
           | Inr fd \<Rightarrow>
               (case setControlMessage os (h @ [CallSysfd v]) fd
                       (payloadHandler_rawOpt (PacketConn_payloadHandler c)) cf on of
                  (e, opt) \<Rightarrow>
                    (Ret (e, c\<lparr>PacketConn_payloadHandler :=
                                 (PacketConn_payloadHandler c)\<lparr>payloadHandler_rawOpt := opt\<rparr>\<rparr>),
                     h @ [CallSysfd v, CallSetControlMessage fd cf on]))))) \<and>
   (\<not> packetHandler_ok (Some (RawConn_packetHandler r)) \<longrightarrow>
      RawConn_call os m (Some r) h = (Ret (Some EINVAL, r), h)) \<and>
   (packetHandler_ok (Some (RawConn_packetHandler r)) \<longrightarrow>
      (\<exists>p. packetHandler_c (RawConn_packetHandler r) = Some p \<and>
        RawConn_call os (SetDeadline t) (Some r) h =
          (Ret (conn_SetDeadline os h (IPConn_val p) t, r), h @ [CallSetDeadline (IPConn_val p) t]) \<and>
        RawConn_call os (SetReadDeadline t) (Some r) h =
          (Ret (conn_SetReadDeadline os h (IPConn_val p) t, r),
           h @ [CallSetReadDeadline (IPConn_val p) t]) \<and>
        RawConn_call os (SetWriteDeadline t) (Some r) h =
          (Ret (conn_SetWriteDeadline os h (IPConn_val p) t, r),
           h @ [CallSetWriteDeadline (IPConn_val p) t]) \<and>
        RawConn_call os Close (Some r) h =
          (Ret (conn_Close os h (IPConn_val p), r), h @ [CallClose (IPConn_val p)]) \<and>
        RawConn_call os (SetControlMessage cf on) (Some r) h =
          (case sysfd os h (IPConn_val p) of
             Inl err \<Rightarrow> (Ret (Some err, r), h @ [CallSysfd (IPConn_val p)])
           | Inr fd \<Rightarrow>
               (case setControlMessage os (h @ [CallSysfd (IPConn_val p)]) fd
                       (packetHandler_rawOpt (RawConn_packetHandler r)) cf on of
                  (e, opt) \<Rightarrow>
                    (Ret (e, r\<lparr>RawConn_packetHandler :=
                                 (RawConn_packetHandler r)\<lparr>packetHandler_rawOpt := opt\<rparr>\<rparr>),
                     h @ [CallSysfd (IPConn_val p), CallSetControlMessage fd cf on])))))"
proof (intro conjI impI)
  assume "\<not> payloadHandler_ok (Some (PacketConn_payloadHandler c))"
  then show "PacketConn_call os m (Some c) h = (Ret (Some EINVAL, c), h)"
    by (rule PacketConn_not_ready)
next
  assume "\<not> packetHandler_ok (Some (RawConn_packetHandler r))"
  then show "RawConn_call os m (Some r) h = (Ret (Some EINVAL, r), h)"
    by (rule RawConn_not_ready)
next
  assume "payloadHandler_ok (Some (PacketConn_payloadHandler c))"
  then obtain v where v: "payloadHandler_c (PacketConn_payloadHandler c) = Some v"
    by auto
  show "\<exists>v. payloadHandler_c (PacketConn_payloadHandler c) = Some v \<and>
        PacketConn_call os (SetDeadline t) (Some c) h =
          (Ret (conn_SetDeadline os h v t, c), h @ [CallSetDeadline v t]) \<and>
        PacketConn_call os (SetReadDeadline t) (Some c) h =
          (Ret (conn_SetReadDeadline os h v t, c), h @ [CallSetReadDeadline v t]) \<and>
        PacketConn_call os (SetWriteDeadline t) (Some c) h =
          (Ret (conn_SetWriteDeadline os h v t, c), h @ [CallSetWriteDeadline v t]) \<and>
        PacketConn_call os Close (Some c) h = (Ret (conn_Close os h v, c), h @ [CallClose v]) \<and>
        PacketConn_call os (SetControlMessage cf on) (Some c) h =
          (case sysfd os h v of
             Inl err \<Rightarrow> (Ret (Some err, c), h @ [CallSysfd v])
           | Inr fd \<Rightarrow>
               (case setControlMessage os (h @ [CallSysfd v]) fd
                       (payloadHandler_rawOpt (PacketConn_payloadHandler c)) cf on of
                  (e, opt) \<Rightarrow>
                    (Ret (e, c\<lparr>PacketConn_payloadHandler :=
                                 (PacketConn_payloadHandler c)\<lparr>payloadHandler_rawOpt := opt\<rparr>\<rparr>),
                     h @ [CallSysfd v, CallSetControlMessage fd cf on])))"
    using PacketConn_ready_deadlines [OF v, of os t h]
      PacketConn_ready_SetControlMessage [OF v, of os cf on h] v
    by blast
next
  assume "packetHandler_ok (Some (RawConn_packetHandler r))"
  then obtain p where p: "packetHandler_c (RawConn_packetHandler r) = Some p"
    by auto
  show "\<exists>p. packetHandler_c (RawConn_packetHandler r) = Some p \<and>
        RawConn_call os (SetDeadline t) (Some r) h =
          (Ret (conn_SetDeadline os h (IPConn_val p) t, r), h @ [CallSetDeadline (IPConn_val p) t]) \<and>
        RawConn_call os (SetReadDeadline t) (Some r) h =
          (Ret (conn_SetReadDeadline os h (IPConn_val p) t, r),
           h @ [CallSetReadDeadline (IPConn_val p) t]) \<and>
        RawConn_call os (SetWriteDeadline t) (Some r) h =
          (Ret (conn_SetWriteDeadline os h (IPConn_val p) t, r),
           h @ [CallSetWriteDeadline (IPConn_val p) t]) \<and>
        RawConn_call os Close (Some r) h =
          (Ret (conn_Close os h (IPConn_val p), r), h @ [CallClose (IPConn_val p)]) \<and>
        RawConn_call os (SetControlMessage cf on) (Some r) h =
          (case sysfd os h (IPConn_val p) of
             Inl err \<Rightarrow> (Ret (Some err, r), h @ [CallSysfd (IPConn_val p)])
           | Inr fd \<Rightarrow>
               (case setControlMessage os (h @ [CallSysfd (IPConn_val p)]) fd
                       (packetHandler_rawOpt (RawConn_packetHandler r)) cf on of
                  (e, opt) \<Rightarrow>
                    (Ret (e, r\<lparr>RawConn_packetHandler :=
                                 (RawConn_packetHandler r)\<lparr>packetHandler_rawOpt := opt\<rparr>\<rparr>),
                     h @ [CallSysfd (IPConn_val p), CallSetControlMessage fd cf on])))"
    using RawConn_ready_deadlines [OF p refl, of os t h]
      RawConn_ready_SetControlMessage [OF p refl, of os cf on h] p
    by blast
qed

text \<open>
  C1, on the mock: the zero values are refused with \<^verbatim>\<open>EINVAL\<close> and an empty history;
  the endpoints over \<open>udp1\<close> and \<open>ip7\<close> pass the call on.
\<close>

theorem facade_guard_then_delegate_witness:
  "\<not> payloadHandler_ok (Some (PacketConn_payloadHandler zero_PacketConn)) \<and>
   PacketConn_call mock_os Close (Some zero_PacketConn) [] = (Ret (Some EINVAL, zero_PacketConn), []) \<and>
   payloadHandler_ok (Some (PacketConn_payloadHandler udp1_PacketConn)) \<and>
   PacketConn_call mock_os (SetDeadline 9) (Some udp1_PacketConn) [] =
     (Ret (None, udp1_PacketConn), [CallSetDeadline udp1 9]) \<and>
   PacketConn_call mock_os (SetControlMessage 5 True) (Some udp1_PacketConn) [] =
     (Ret (None, udp1_PacketConn\<lparr>PacketConn_payloadHandler :=
              \<lparr>payloadHandler_c = Some udp1, payloadHandler_rawOpt = 5\<rparr>\<rparr>),
      [CallSysfd udp1, CallSetControlMessage 1 5 True]) \<and>
   \<not> packetHandler_ok (Some (RawConn_packetHandler zero_RawConn)) \<and>
   RawConn_call mock_os (SetReadDeadline 9) (Some zero_RawConn) [] = (Ret (Some EINVAL, zero_RawConn), []) \<and>
   packetHandler_ok (Some (RawConn_packetHandler ip7_RawConn)) \<and>
   RawConn_call mock_os Close (Some ip7_RawConn) [] = (Ret (None, ip7_RawConn), [CallClose ip7])"
  using facade_guard_then_delegate [of zero_PacketConn mock_os Close "[]" 9 5 True zero_RawConn]
    facade_guard_then_delegate [of udp1_PacketConn mock_os "SetReadDeadline 9" "[]" 9 5 True ip7_RawConn]
  by (simp add: mock_os_simps zero_PacketConn_def zero_RawConn_def udp1_PacketConn_def
      ip7_RawConn_def udp1_def ip7_def IPConn_val_def is_closed_def setControlMessage_spec_def
      mock_sockopt_def)

section \<open>Endpoints over a nil connection\<close>

text \<open>
  C2, as stated, fails: \<^verbatim>\<open>NewPacketConn(nil)\<close> and \<^verbatim>\<open>NewRawConn(nil)\<close> return no
  Endpoint. The type assertion \<^verbatim>\<open>c.(net.Conn)\<close> on the nil interface panics.
\<close>

theorem constructors_panic_on_nil_connection:
  "NewPacketConn None = Panic \<and> NewRawConn mock_os None [] = (Panic, [])"
  by (simp add: NewPacketConn_def NewRawConn_def)

text \<open>
  C2, amended. \<^verbatim>\<open>NewConn(nil)\<close> returns a \<^verbatim>\<open>Conn\<close> whose handle is not ready
  (\<^verbatim>\<open>endpoint.go\<close> gives \<^verbatim>\<open>Conn\<close> no public method). \<^verbatim>\<open>NewPacketConn(nil)\<close> and
  \<^verbatim>\<open>NewRawConn(nil)\<close> panic in the type assertion, before any OS interaction, and return
  nothing. On every \<^verbatim>\<open>PacketConn\<close> or \<^verbatim>\<open>RawConn\<close> whose control handler wraps a nil
  connection, as the zero value does, every public method returns \<^verbatim>\<open>EINVAL\<close> and
  performs no OS interaction.
\<close>

theorem nil_connection_endpoints:
  "(\<exists>p. NewConn None = Some p \<and> \<not> genericOpt_ok (Some (Conn_genericOpt p))) \<and>
   NewPacketConn None = Panic \<and>
   NewRawConn os None h = (Panic, h) \<and>
   (payloadHandler_c (PacketConn_payloadHandler c) = None \<longrightarrow>
      PacketConn_call os m (Some c) h = (Ret (Some EINVAL, c), h)) \<and>
   (packetHandler_c (RawConn_packetHandler r) = None \<longrightarrow>
      RawConn_call os m (Some r) h = (Ret (Some EINVAL, r), h))"
  by (simp add: NewConn_def NewPacketConn_def NewRawConn_def PacketConn_not_ready RawConn_not_ready)

text \<open>
  C2 amended, on the zero values of \<^verbatim>\<open>PacketConn\<close> and \<^verbatim>\<open>RawConn\<close>.
\<close>

theorem nil_connection_endpoints_witness:
  "payloadHandler_c (PacketConn_payloadHandler zero_PacketConn) = None \<and>
   PacketConn_call mock_os (SetControlMessage 1 True) (Some zero_PacketConn) [] =
     (Ret (Some EINVAL, zero_PacketConn), []) \<and>
   packetHandler_c (RawConn_packetHandler zero_RawConn) = None \<and>
   RawConn_call mock_os (SetControlMessage 1 True) (Some zero_RawConn) [] =
     (Ret (Some EINVAL, zero_RawConn), [])"
  using nil_connection_endpoints [of mock_os "[]" zero_PacketConn "SetControlMessage 1 True" zero_RawConn]
  by (simp add: zero_PacketConn_def zero_RawConn_def)

section \<open>Construction of a RawConn\<close>

text \<open>
  C3, as stated for every underlying packet connection, fails: over a \<^verbatim>\<open>*net.UnixConn\<close>
  \<^verbatim>\<open>NewRawConn\<close> returns neither a \<^verbatim>\<open>RawConn\<close> nor an error. The type assertion
  \<^verbatim>\<open>c.(*net.IPConn)\<close> panics.
\<close>

theorem NewRawConn_panics_on_UnixConn:
  "NewRawConn mock_os (Some unix2) [] = (Panic, [])"
  by (simp add: NewRawConn_def unix2_def)

text \<open>
  C3, amended. Over a connection of concrete type \<^verbatim>\<open>*net.IPConn\<close>, \<^verbatim>\<open>NewRawConn\<close> has
  exactly three outcomes. Descriptor resolution and the enabling of header prepending both
  succeed, and it returns a nil error with a \<^verbatim>\<open>RawConn\<close> that wraps the connection and has
  no class requested. Or descriptor resolution fails, and it returns a nil \<^verbatim>\<open>RawConn\<close>
  with that error, having made no OS call after the resolution. Or the enabling fails, and
  it returns a nil \<^verbatim>\<open>RawConn\<close> with that error, having made no OS call after it. The
  \<^verbatim>\<open>RawConn\<close> of the first outcome is ready exactly when the \<^verbatim>\<open>*net.IPConn\<close> in the
  connection is a non-nil pointer: an interface holding a nil \<^verbatim>\<open>*net.IPConn\<close> passes both
  type assertions, its descriptor is resolved without a guard, and if nothing fails the
  \<^verbatim>\<open>RawConn\<close> returned is not ready. Over the nil interface or a connection of any other
  concrete type \<^verbatim>\<open>NewRawConn\<close> panics in the type assertions, before any OS call, and
  returns nothing.
\<close>

theorem NewRawConn_atomic_on_IPConn:
  "(val_type v = IPConn \<longrightarrow>
      (\<exists>fd r. sysfd os h v = Inr fd \<and>
          setIPv4HeaderPrepend os (h @ [CallSysfd v]) fd True = None \<and>
          NewRawConn os (Some v) h =
            (Ret (Some r, None), h @ [CallSysfd v, CallSetIPv4HeaderPrepend fd True]) \<and>
          packetHandler_c (RawConn_packetHandler r) = val_ref v \<and>
          packetHandler_ok (Some (RawConn_packetHandler r)) = (val_ref v \<noteq> None) \<and>
          packetHandler_conn (RawConn_packetHandler r) = Some v \<and>
          packetHandler_rawOpt (RawConn_packetHandler r) = 0 \<and>
          genericOpt_c (RawConn_genericOpt r) = Some (PacketView v) \<and>
          dgramOpt_c (RawConn_dgramOpt r) = Some v) \<or>
      (\<exists>err. sysfd os h v = Inl err \<and>
          NewRawConn os (Some v) h = (Ret (None, Some err), h @ [CallSysfd v])) \<or>
      (\<exists>fd err. sysfd os h v = Inr fd \<and>
          setIPv4HeaderPrepend os (h @ [CallSysfd v]) fd True = Some err \<and>
          NewRawConn os (Some v) h =
            (Ret (None, Some err), h @ [CallSysfd v, CallSetIPv4HeaderPrepend fd True]))) \<and>
   (val_type v \<noteq> IPConn \<longrightarrow> NewRawConn os (Some v) h = (Panic, h)) \<and>
   NewRawConn os None h = (Panic, h)"
proof (intro conjI impI)
  assume ip: "val_type v = IPConn"
  note eq = NewRawConn_IPConn [OF ip, of os h]
  show "(\<exists>fd r. sysfd os h v = Inr fd \<and>
          setIPv4HeaderPrepend os (h @ [CallSysfd v]) fd True = None \<and>
          NewRawConn os (Some v) h =
            (Ret (Some r, None), h @ [CallSysfd v, CallSetIPv4HeaderPrepend fd True]) \<and>
          packetHandler_c (RawConn_packetHandler r) = val_ref v \<and>
          packetHandler_ok (Some (RawConn_packetHandler r)) = (val_ref v \<noteq> None) \<and>
          packetHandler_conn (RawConn_packetHandler r) = Some v \<and>
          packetHandler_rawOpt (RawConn_packetHandler r) = 0 \<and>
          genericOpt_c (RawConn_genericOpt r) = Some (PacketView v) \<and>
          dgramOpt_c (RawConn_dgramOpt r) = Some v) \<or>
      (\<exists>err. sysfd os h v = Inl err \<and>
          NewRawConn os (Some v) h = (Ret (None, Some err), h @ [CallSysfd v])) \<or>
      (\<exists>fd err. sysfd os h v = Inr fd \<and>
          setIPv4HeaderPrepend os (h @ [CallSysfd v]) fd True = Some err \<and>
          NewRawConn os (Some v) h =
            (Ret (None, Some err), h @ [CallSysfd v, CallSetIPv4HeaderPrepend fd True]))"
  proof (cases "sysfd os h v")
    case (Inl err)
    with eq show ?thesis by simp
  next
    case (Inr fd)
    show ?thesis
    proof (cases "setIPv4HeaderPrepend os (h @ [CallSysfd v]) fd True")
      case None
      with eq Inr ip show ?thesis
        by (simp add: packetHandler_conn_def IPConn_val_eq)
    next
      case (Some err)
      with eq Inr show ?thesis by simp
    qed
  qed
next
  assume "val_type v \<noteq> IPConn"
  then show "NewRawConn os (Some v) h = (Panic, h)"
    by (rule NewRawConn_not_IPConn)
next
  show "NewRawConn os None h = (Panic, h)"
    by (simp add: NewRawConn_def)
qed

text \<open>
  C3 amended, on the mock: an open \<^verbatim>\<open>IPConn\<close>, a closed one, one on which the OS
  refuses header prepending, a nil \<^verbatim>\<open>*net.IPConn\<close> whose descriptor does not resolve and,
  on the second OS, one whose descriptor does, and a \<^verbatim>\<open>UDPConn\<close>.
\<close>

theorem NewRawConn_atomic_on_IPConn_witness:
  "val_type ip7 = IPConn \<and>
   NewRawConn mock_os (Some ip7) [] =
     (Ret (Some ip7_RawConn, None), [CallSysfd ip7, CallSetIPv4HeaderPrepend 7 True]) \<and>
   packetHandler_ok (Some (RawConn_packetHandler ip7_RawConn)) \<and>
   NewRawConn mock_os (Some ip7) [CallClose ip7] =
     (Ret (None, Some errClosing), [CallClose ip7, CallSysfd ip7]) \<and>
   val_type ip0 = IPConn \<and>
   NewRawConn mock_os (Some ip0) [] =
     (Ret (None, Some (Errno 1)), [CallSysfd ip0, CallSetIPv4HeaderPrepend 0 True]) \<and>
   val_type ip_nil = IPConn \<and>
   NewRawConn mock_os (Some ip_nil) [] = (Ret (None, Some EINVAL), [CallSysfd ip_nil]) \<and>
   NewRawConn late_os (Some ip_nil) [] =
     (Ret (Some ip_nil_RawConn, None), [CallSysfd ip_nil, CallSetIPv4HeaderPrepend 3 True]) \<and>
   \<not> packetHandler_ok (Some (RawConn_packetHandler ip_nil_RawConn)) \<and>
   val_type udp1 \<noteq> IPConn \<and>
   NewRawConn mock_os (Some udp1) [] = (Panic, [])"
  using NewRawConn_atomic_on_IPConn [of ip7 mock_os "[]"]
    NewRawConn_atomic_on_IPConn [of ip7 mock_os "[CallClose ip7]"]
    NewRawConn_atomic_on_IPConn [of ip0 mock_os "[]"]
    NewRawConn_atomic_on_IPConn [of ip_nil mock_os "[]"]
    NewRawConn_atomic_on_IPConn [of ip_nil late_os "[]"]
    NewRawConn_atomic_on_IPConn [of udp1 mock_os "[]"]
  by (auto simp add: mock_os_simps late_os_def mock_os_def is_closed_def ip7_def ip0_def udp1_def
      ip_nil_def ip7_RawConn_def ip_nil_RawConn_def errClosing_def packetHandler_conn_def
      IPConn_val_def)

section \<open>SetControlMessage and the raw option state\<close>

text \<open>
  C4. With the option setter of the spec underneath, a \<^verbatim>\<open>SetControlMessage\<close> on a
  \<^verbatim>\<open>PacketConn\<close> or \<^verbatim>\<open>RawConn\<close> that returns an error, be it from descriptor resolution
  or from the OS-level update, leaves the handler's \<^verbatim>\<open>rawOpt\<close> exactly as it was before
  the call, and the rest of the receiver too. So only a call that returns nil can have
  changed the recorded request set.
\<close>

theorem failed_SetControlMessage_keeps_rawOpt:
  "(PacketConn_SetControlMessage (os\<lparr>setControlMessage := setControlMessage_spec sockopt\<rparr>)
      (Some c) cf on h = (Ret (Some err, c'), h') \<longrightarrow>
    payloadHandler_rawOpt (PacketConn_payloadHandler c') =
      payloadHandler_rawOpt (PacketConn_payloadHandler c) \<and> c' = c) \<and>
   (RawConn_SetControlMessage (os\<lparr>setControlMessage := setControlMessage_spec sockopt\<rparr>)
      (Some r) cf on h = (Ret (Some err, r'), h'') \<longrightarrow>
    packetHandler_rawOpt (RawConn_packetHandler r') =
      packetHandler_rawOpt (RawConn_packetHandler r) \<and> r' = r)"
  using PacketConn_failure_keeps_receiver RawConn_failure_keeps_receiver by blast

text \<open>
  C4, on the mock: the OS rejects flag 256 on an open \<^verbatim>\<open>PacketConn\<close>, and descriptor
  resolution fails on a closed \<^verbatim>\<open>RawConn\<close>; the requested classes stay 5.
\<close>

theorem failed_SetControlMessage_keeps_rawOpt_witness:
  "PacketConn_SetControlMessage (mock_os\<lparr>setControlMessage := setControlMessage_spec mock_sockopt\<rparr>)
     (Some udp1_with_5) 256 True [] =
     (Ret (Some (Errno 92), udp1_with_5), [CallSysfd udp1, CallSetControlMessage 1 256 True]) \<and>
   payloadHandler_rawOpt (PacketConn_payloadHandler udp1_with_5) = 5 \<and>
   RawConn_SetControlMessage (mock_os\<lparr>setControlMessage := setControlMessage_spec mock_sockopt\<rparr>)
     (Some ip7_with_5) 2 False [CallClose ip7] =
     (Ret (Some errClosing, ip7_with_5), [CallClose ip7, CallSysfd ip7]) \<and>
   packetHandler_rawOpt (RawConn_packetHandler ip7_with_5) = 5"
  using failed_SetControlMessage_keeps_rawOpt [where os = mock_os and sockopt = mock_sockopt
      and c = udp1_with_5 and cf = 256 and on = True and h = "[]" and err = "Errno 92"
      and c' = udp1_with_5 and h' = "[CallSysfd udp1, CallSetControlMessage 1 256 True]"]
    failed_SetControlMessage_keeps_rawOpt [where os = mock_os and sockopt = mock_sockopt
      and r = ip7_with_5 and cf = 2 and on = False and h = "[CallClose ip7]" and err = errClosing
      and r' = ip7_with_5 and h'' = "[CallClose ip7, CallSysfd ip7]"]
  by (simp add: mock_os_simps mock_sockopt_def udp1_with_5_def ip7_with_5_def udp1_PacketConn_def
      ip7_RawConn_def udp1_def ip7_def is_closed_def setControlMessage_spec_def
      packetHandler_conn_def IPConn_val_def)

text \<open>
  C5. On a ready \<^verbatim>\<open>PacketConn\<close> or \<^verbatim>\<open>RawConn\<close>, when the descriptor of the wrapped
  connection cannot be resolved, \<^verbatim>\<open>SetControlMessage\<close> returns the resolution error as
  it got it. The option setter is not called: the history gains the resolution alone,
  the receiver is unchanged, and the outcome is the same whatever option setter \<open>scm\<close>
  is put in place.
\<close>

theorem SetControlMessage_stops_at_descriptor_failure:
  "(payloadHandler_c (PacketConn_payloadHandler c) = Some v \<and> sysfd os h v = Inl err \<longrightarrow>
      PacketConn_SetControlMessage (os\<lparr>setControlMessage := scm\<rparr>) (Some c) cf on h =
        (Ret (Some err, c), h @ [CallSysfd v])) \<and>
   (packetHandler_c (RawConn_packetHandler r) = Some p \<and> sysfd os h (IPConn_val p) = Inl err' \<longrightarrow>
      RawConn_SetControlMessage (os\<lparr>setControlMessage := scm\<rparr>) (Some r) cf on h =
        (Ret (Some err', r), h @ [CallSysfd (IPConn_val p)]))"
  by (simp add: packetHandler_conn_def IPConn_val_def)

text \<open>
  C5, on the mock: the descriptor of a closed connection does not resolve.
\<close>

theorem SetControlMessage_stops_at_descriptor_failure_witness:
  "payloadHandler_c (PacketConn_payloadHandler udp1_PacketConn) = Some udp1 \<and>
   sysfd mock_os [CallClose udp1] udp1 = Inl errClosing \<and>
   PacketConn_SetControlMessage mock_os (Some udp1_PacketConn) 1 True [CallClose udp1] =
     (Ret (Some errClosing, udp1_PacketConn), [CallClose udp1, CallSysfd udp1]) \<and>
   packetHandler_c (RawConn_packetHandler ip7_RawConn) = Some 7 \<and>
   sysfd mock_os [CallClose ip7] (IPConn_val 7) = Inl errClosing \<and>
   RawConn_SetControlMessage mock_os (Some ip7_RawConn) 1 True [CallClose ip7] =
     (Ret (Some errClosing, ip7_RawConn), [CallClose ip7, CallSysfd ip7])"
  using SetControlMessage_stops_at_descriptor_failure [where c = udp1_PacketConn and v = udp1
      and os = mock_os and h = "[CallClose udp1]" and err = errClosing
      and scm = "setControlMessage mock_os" and cf = 1 and on = True]
    SetControlMessage_stops_at_descriptor_failure [where r = ip7_RawConn and p = 7
      and os = mock_os and h = "[CallClose ip7]" and err' = errClosing
      and scm = "setControlMessage mock_os" and cf = 1 and on = True]
  by (simp add: mock_os_simps udp1_PacketConn_def ip7_RawConn_def udp1_def ip7_def is_closed_def
      packetHandler_conn_def IPConn_val_def)

section \<open>The readiness predicate\<close>

text \<open>
  C6. \<^verbatim>\<open>ok()\<close> on \<^verbatim>\<open>genericOpt\<close> and on \<^verbatim>\<open>dgramOpt\<close> returns true exactly when the
  handle pointer is non-nil and the connection it wraps is non-nil. It has no side
  effect: it maps the handle to a truth value, calls no collaborator and returns
  nothing else.
\<close>

theorem ok_iff_handle_and_connection_present:
  "(genericOpt_ok g \<longleftrightarrow> (\<exists>c. g = Some c \<and> genericOpt_c c \<noteq> None)) \<and>
   (dgramOpt_ok d \<longleftrightarrow> (\<exists>c. d = Some c \<and> dgramOpt_c c \<noteq> None))"
  by (cases g; cases d) simp_all

section \<open>Construction of a Conn and of a PacketConn\<close>

text \<open>
  C7. Over a valid connection, \<^verbatim>\<open>NewConn\<close> and \<^verbatim>\<open>NewPacketConn\<close> always succeed.
  \<^verbatim>\<open>NewConn\<close> over a non-nil \<^verbatim>\<open>net.Conn\<close> returns a non-nil \<^verbatim>\<open>Conn\<close> whose handle wraps
  it and is ready. \<^verbatim>\<open>NewPacketConn\<close> over a non-nil \<^verbatim>\<open>net.PacketConn\<close> whose concrete
  type also implements \<^verbatim>\<open>net.Conn\<close> returns a non-nil \<^verbatim>\<open>PacketConn\<close> whose three
  handlers wrap it and are ready. Neither has an error result nor makes an OS call. Only
  \<^verbatim>\<open>NewRawConn\<close> can fail on a valid connection and return a nil endpoint with an error.
\<close>

theorem NewConn_NewPacketConn_succeed_on_valid_connection:
  "(c \<noteq> None \<longrightarrow>
      (\<exists>p. NewConn c = Some p \<and> genericOpt_c (Conn_genericOpt p) = c \<and>
           genericOpt_ok (Some (Conn_genericOpt p)))) \<and>
   (implements_Conn (val_type v) \<longrightarrow>
      (\<exists>p. NewPacketConn (Some v) = Ret (Some p) \<and>
           genericOpt_c (PacketConn_genericOpt p) = Some (PacketView v) \<and>
           dgramOpt_c (PacketConn_dgramOpt p) = Some v \<and>
           payloadHandler_c (PacketConn_payloadHandler p) = Some v \<and>
           payloadHandler_rawOpt (PacketConn_payloadHandler p) = 0 \<and>
           genericOpt_ok (Some (PacketConn_genericOpt p)) \<and>
           dgramOpt_ok (Some (PacketConn_dgramOpt p)) \<and>
           payloadHandler_ok (Some (PacketConn_payloadHandler p)))) \<and>
   (\<exists>os w h err h'. implements_Conn (val_type w) \<and> val_type w = IPConn \<and>
        NewRawConn os (Some w) h = (Ret (None, Some err), h'))"
proof (intro conjI impI)
  show "\<exists>os w h err h'. implements_Conn (val_type w) \<and> val_type w = IPConn \<and>
        NewRawConn os (Some w) h = (Ret (None, Some err), h')"
  proof (intro exI conjI)
    show "NewRawConn mock_os (Some ip0) [] =
        (Ret (None, Some (Errno 1)), [CallSysfd ip0, CallSetIPv4HeaderPrepend 0 True])"
      by (simp add: NewRawConn_IPConn ip0_def mock_os_simps is_closed_def)
  qed (simp_all add: ip0_def)
qed (simp_all add: NewConn_def NewPacketConn_def)

text \<open>
  C7, on a stream connection and on \<open>udp1\<close>.
\<close>

theorem NewConn_NewPacketConn_succeed_on_valid_connection_witness:
  "Some (StreamConn 4) \<noteq> None \<and>
   NewConn (Some (StreamConn 4)) = Some \<lparr>Conn_genericOpt = \<lparr>genericOpt_c = Some (StreamConn 4)\<rparr>\<rparr> \<and>
   implements_Conn (val_type udp1) \<and>
   NewPacketConn (Some udp1) = Ret (Some udp1_PacketConn)"
  using NewConn_NewPacketConn_succeed_on_valid_connection [of "Some (StreamConn 4)" udp1]
  by (simp add: NewConn_def NewPacketConn_def udp1_def udp1_PacketConn_def)

section \<open>After Close\<close>

text \<open>
  C8. \<^verbatim>\<open>Close\<close> on a ready \<^verbatim>\<open>PacketConn\<close> or \<^verbatim>\<open>RawConn\<close> makes one call, of
  \<^verbatim>\<open>Close\<close> on the wrapped connection, returns its result and leaves every field of the
  receiver as it was, the handler's connection reference included. So the handler is still
  ready afterwards, and every later call passes the guard and goes to the collaborators
  as it would have before: a deadline setter makes its one call on the wrapped connection
  and returns what the connection answers after the \<^verbatim>\<open>Close\<close>; \<^verbatim>\<open>SetControlMessage\<close>
  resolves the descriptor and returns the resolution error if there is one, and otherwise
  calls the option setter on that descriptor and returns what the setter answers. Whatever
  closed-connection error the collaborators report is the one returned; none of these
  calls returns from the local guard, and none panics.
\<close>

theorem Close_keeps_handler_and_later_calls_reach_the_connection:
  "(payloadHandler_c (PacketConn_payloadHandler c) = Some v \<longrightarrow>
      PacketConn_Close os (Some c) h = (Ret (conn_Close os h v, c), h @ [CallClose v]) \<and>
      payloadHandler_ok (Some (PacketConn_payloadHandler c)) \<and>
      PacketConn_SetDeadline os (Some c) t (h @ [CallClose v]) =
        (Ret (conn_SetDeadline os (h @ [CallClose v]) v t, c),
         h @ [CallClose v, CallSetDeadline v t]) \<and>
      PacketConn_SetReadDeadline os (Some c) t (h @ [CallClose v]) =
        (Ret (conn_SetReadDeadline os (h @ [CallClose v]) v t, c),
         h @ [CallClose v, CallSetReadDeadline v t]) \<and>
      PacketConn_SetWriteDeadline os (Some c) t (h @ [CallClose v]) =
        (Ret (conn_SetWriteDeadline os (h @ [CallClose v]) v t, c),
         h @ [CallClose v, CallSetWriteDeadline v t]) \<and>
      PacketConn_SetControlMessage os (Some c) cf on (h @ [CallClose v]) =
        (case sysfd os (h @ [CallClose v]) v of
           Inl err \<Rightarrow> (Ret (Some err, c), h @ [CallClose v, CallSysfd v])
         | Inr fd \<Rightarrow>
             (case setControlMessage os (h @ [CallClose v, CallSysfd v]) fd
                     (payloadHandler_rawOpt (PacketConn_payloadHandler c)) cf on of
                (e, opt) \<Rightarrow>
                  (Ret (e, c\<lparr>PacketConn_payloadHandler :=
                               (PacketConn_payloadHandler c)\<lparr>payloadHandler_rawOpt := opt\<rparr>\<rparr>),
                   h @ [CallClose v, CallSysfd v, CallSetControlMessage fd cf on])))) \<and>
   (packetHandler_c (RawConn_packetHandler r) = Some p \<longrightarrow>
      RawConn_Close os (Some r) h =
        (Ret (conn_Close os h (IPConn_val p), r), h @ [CallClose (IPConn_val p)]) \<and>
      packetHandler_ok (Some (RawConn_packetHandler r)) \<and>
      RawConn_SetDeadline os (Some r) t (h @ [CallClose (IPConn_val p)]) =
        (Ret (conn_SetDeadline os (h @ [CallClose (IPConn_val p)]) (IPConn_val p) t, r),
         h @ [CallClose (IPConn_val p), CallSetDeadline (IPConn_val p) t]) \<and>
      RawConn_SetReadDeadline os (Some r) t (h @ [CallClose (IPConn_val p)]) =
        (Ret (conn_SetReadDeadline os (h @ [CallClose (IPConn_val p)]) (IPConn_val p) t, r),
         h @ [CallClose (IPConn_val p), CallSetReadDeadline (IPConn_val p) t]) \<and>
      RawConn_SetWriteDeadline os (Some r) t (h @ [CallClose (IPConn_val p)]) =
        (Ret (conn_SetWriteDeadline os (h @ [CallClose (IPConn_val p)]) (IPConn_val p) t, r),
         h @ [CallClose (IPConn_val p), CallSetWriteDeadline (IPConn_val p) t]) \<and>
      RawConn_SetControlMessage os (Some r) cf on (h @ [CallClose (IPConn_val p)]) =
        (case sysfd os (h @ [CallClose (IPConn_val p)]) (IPConn_val p) of
           Inl err \<Rightarrow>
             (Ret (Some err, r), h @ [CallClose (IPConn_val p), CallSysfd (IPConn_val p)])
         | Inr fd \<Rightarrow>
             (case setControlMessage os (h @ [CallClose (IPConn_val p), CallSysfd (IPConn_val p)])
                     fd (packetHandler_rawOpt (RawConn_packetHandler r)) cf on of
                (e, opt) \<Rightarrow>
                  (Ret (e, r\<lparr>RawConn_packetHandler :=
                               (RawConn_packetHandler r)\<lparr>packetHandler_rawOpt := opt\<rparr>\<rparr>),
                   h @ [CallClose (IPConn_val p), CallSysfd (IPConn_val p),
                        CallSetControlMessage fd cf on]))))"
proof (intro conjI impI)
  assume v: "payloadHandler_c (PacketConn_payloadHandler c) = Some v"
  show "PacketConn_SetControlMessage os (Some c) cf on (h @ [CallClose v]) =
        (case sysfd os (h @ [CallClose v]) v of
           Inl err \<Rightarrow> (Ret (Some err, c), h @ [CallClose v, CallSysfd v])
         | Inr fd \<Rightarrow>
             (case setControlMessage os (h @ [CallClose v, CallSysfd v]) fd
                     (payloadHandler_rawOpt (PacketConn_payloadHandler c)) cf on of
                (e, opt) \<Rightarrow>
                  (Ret (e, c\<lparr>PacketConn_payloadHandler :=
                               (PacketConn_payloadHandler c)\<lparr>payloadHandler_rawOpt := opt\<rparr>\<rparr>),
                   h @ [CallClose v, CallSysfd v, CallSetControlMessage fd cf on])))"
    using v by (simp split: sum.splits prod.splits)
next
  assume p: "packetHandler_c (RawConn_packetHandler r) = Some p"
  show "RawConn_SetControlMessage os (Some r) cf on (h @ [CallClose (IPConn_val p)]) =
        (case sysfd os (h @ [CallClose (IPConn_val p)]) (IPConn_val p) of
           Inl err \<Rightarrow>
             (Ret (Some err, r), h @ [CallClose (IPConn_val p), CallSysfd (IPConn_val p)])
         | Inr fd \<Rightarrow>
             (case setControlMessage os (h @ [CallClose (IPConn_val p), CallSysfd (IPConn_val p)])
                     fd (packetHandler_rawOpt (RawConn_packetHandler r)) cf on of
                (e, opt) \<Rightarrow>
                  (Ret (e, r\<lparr>RawConn_packetHandler :=
                               (RawConn_packetHandler r)\<lparr>packetHandler_rawOpt := opt\<rparr>\<rparr>),
                   h @ [CallClose (IPConn_val p), CallSysfd (IPConn_val p),
                        CallSetControlMessage fd cf on])))"
    using p by (simp add: packetHandler_conn_def IPConn_val_def split: sum.splits prod.splits)
qed (simp_all add: packetHandler_conn_def IPConn_val_def)

text \<open>
  C8, on the mock, where a closed connection answers every call with the
  closed-connection error of package \<^verbatim>\<open>net\<close>, and on the second OS, where the descriptor
  of a closed connection still resolves and it is the option setter that reports the
  error.
\<close>

theorem Close_keeps_handler_and_later_calls_reach_the_connection_witness:
  "payloadHandler_c (PacketConn_payloadHandler udp1_PacketConn) = Some udp1 \<and>
   PacketConn_Close mock_os (Some udp1_PacketConn) [] = (Ret (None, udp1_PacketConn), [CallClose udp1]) \<and>
   PacketConn_SetDeadline mock_os (Some udp1_PacketConn) 9 [CallClose udp1] =
     (Ret (Some errClosing, udp1_PacketConn), [CallClose udp1, CallSetDeadline udp1 9]) \<and>
   PacketConn_SetControlMessage mock_os (Some udp1_PacketConn) 1 True [CallClose udp1] =
     (Ret (Some errClosing, udp1_PacketConn), [CallClose udp1, CallSysfd udp1]) \<and>
   PacketConn_SetControlMessage late_os (Some udp1_PacketConn) 1 True [CallClose udp1] =
     (Ret (Some errClosing, udp1_PacketConn),
      [CallClose udp1, CallSysfd udp1, CallSetControlMessage 1 1 True]) \<and>
   packetHandler_c (RawConn_packetHandler ip7_RawConn) = Some 7 \<and>
   RawConn_Close mock_os (Some ip7_RawConn) [] = (Ret (None, ip7_RawConn), [CallClose ip7]) \<and>
   RawConn_SetDeadline mock_os (Some ip7_RawConn) 9 [CallClose ip7] =
     (Ret (Some errClosing, ip7_RawConn), [CallClose ip7, CallSetDeadline ip7 9]) \<and>
   RawConn_SetControlMessage mock_os (Some ip7_RawConn) 1 True [CallClose ip7] =
     (Ret (Some errClosing, ip7_RawConn), [CallClose ip7, CallSysfd ip7]) \<and>
   RawConn_SetControlMessage late_os (Some ip7_RawConn) 1 True [CallClose ip7] =
     (Ret (Some errClosing, ip7_RawConn),
      [CallClose ip7, CallSysfd ip7, CallSetControlMessage 7 1 True])"
  using Close_keeps_handler_and_later_calls_reach_the_connection [where c = udp1_PacketConn
      and v = udp1 and os = mock_os and h = "[]" and t = 9 and cf = 1
      and on = True and r = ip7_RawConn and p = 7]
    Close_keeps_handler_and_later_calls_reach_the_connection [where c = udp1_PacketConn
      and v = udp1 and os = late_os and h = "[]" and t = 9 and cf = 1
      and on = True and r = ip7_RawConn and p = 7]
  by (simp add: mock_os_simps late_os_def mock_os_def fd_closed_def udp1_PacketConn_def
      ip7_RawConn_def udp1_def ip7_def is_closed_def packetHandler_conn_def IPConn_val_def
      setControlMessage_spec_def mock_sockopt_def)

section \<open>The unchecked type assertions\<close>

text \<open>
  C9. \<^verbatim>\<open>NewPacketConn\<close> and \<^verbatim>\<open>NewRawConn\<close> assert the kind of the connection without
  checking it. \<^verbatim>\<open>NewPacketConn\<close> panics exactly on a connection whose concrete type does
  not implement \<^verbatim>\<open>net.Conn\<close>, and \<^verbatim>\<open>NewRawConn\<close> exactly on one whose concrete type is
  not \<^verbatim>\<open>*net.IPConn\<close>. There are such inputs: a user-defined packet connection without
  the stream methods, and a \<^verbatim>\<open>*net.UDPConn\<close>. On them the constructor reports no error:
  it panics, with no OS call made.
\<close>

theorem constructors_panic_on_wrong_concrete_kind:
  "(NewPacketConn (Some v) = Panic \<longleftrightarrow> \<not> implements_Conn (val_type v)) \<and>
   (fst (NewRawConn os (Some v) h) = Panic \<longleftrightarrow> val_type v \<noteq> IPConn) \<and>
   NewPacketConn (Some packet_only) = Panic \<and>
   NewRawConn os (Some packet_only) h = (Panic, h) \<and>
   NewRawConn os (Some udp1) h = (Panic, h)"
proof -
  have "fst (NewRawConn os (Some v) h) = Panic \<longleftrightarrow> val_type v \<noteq> IPConn"
  proof (cases "val_type v = IPConn")
    case True
    then show ?thesis
      by (simp add: NewRawConn_IPConn split: sum.splits option.splits)
  next
    case False
    then show ?thesis
      by (simp add: NewRawConn_not_IPConn)
  qed
  then show ?thesis
    by (simp add: NewPacketConn_def NewRawConn_not_IPConn packet_only_def udp1_def)
qed

section \<open>What a method reads and writes\<close>

text \<open>
  C10. Each public method of \<^verbatim>\<open>PacketConn\<close> reads and writes \<^verbatim>\<open>payloadHandler\<close> only,
  and each of \<^verbatim>\<open>RawConn\<close> \<^verbatim>\<open>packetHandler\<close> only. On two receivers with the same
  control handler, whatever their \<^verbatim>\<open>genericOpt\<close> and \<^verbatim>\<open>dgramOpt\<close>, a method returns the
  same error, makes the same OS calls and leaves the same control handler; and it hands
  back the \<^verbatim>\<open>genericOpt\<close> and \<^verbatim>\<open>dgramOpt\<close> of each receiver as they were.
\<close>

theorem methods_touch_only_their_control_handler:
  "(PacketConn_payloadHandler c1 = PacketConn_payloadHandler c2 \<longrightarrow>
      (\<exists>e h' c1' c2'.
          PacketConn_call os m (Some c1) h = (Ret (e, c1'), h') \<and>
          PacketConn_call os m (Some c2) h = (Ret (e, c2'), h') \<and>
          PacketConn_payloadHandler c1' = PacketConn_payloadHandler c2' \<and>
          PacketConn_genericOpt c1' = PacketConn_genericOpt c1 \<and>
          PacketConn_dgramOpt c1' = PacketConn_dgramOpt c1 \<and>
          PacketConn_genericOpt c2' = PacketConn_genericOpt c2 \<and>
          PacketConn_dgramOpt c2' = PacketConn_dgramOpt c2)) \<and>
   (RawConn_packetHandler r1 = RawConn_packetHandler r2 \<longrightarrow>
      (\<exists>e h' r1' r2'.
          RawConn_call os m (Some r1) h = (Ret (e, r1'), h') \<and>
          RawConn_call os m (Some r2) h = (Ret (e, r2'), h') \<and>
          RawConn_packetHandler r1' = RawConn_packetHandler r2' \<and>
          RawConn_genericOpt r1' = RawConn_genericOpt r1 \<and>
          RawConn_dgramOpt r1' = RawConn_dgramOpt r1 \<and>
          RawConn_genericOpt r2' = RawConn_genericOpt r2 \<and>
          RawConn_dgramOpt r2' = RawConn_dgramOpt r2))"
proof (intro conjI impI)
  assume eq: "PacketConn_payloadHandler c1 = PacketConn_payloadHandler c2"
  obtain e ph' h' where fr: "\<And>c. PacketConn_payloadHandler c = PacketConn_payloadHandler c2 \<Longrightarrow>
      PacketConn_call os m (Some c) h = (Ret (e, c\<lparr>PacketConn_payloadHandler := ph'\<rparr>), h')"
    using PacketConn_call_frame [of "PacketConn_payloadHandler c2" os m h] by blast
  have "PacketConn_call os m (Some c1) h = (Ret (e, c1\<lparr>PacketConn_payloadHandler := ph'\<rparr>), h')"
    and "PacketConn_call os m (Some c2) h = (Ret (e, c2\<lparr>PacketConn_payloadHandler := ph'\<rparr>), h')"
    using fr eq by simp_all
  then show "\<exists>e h' c1' c2'.
          PacketConn_call os m (Some c1) h = (Ret (e, c1'), h') \<and>
          PacketConn_call os m (Some c2) h = (Ret (e, c2'), h') \<and>
          PacketConn_payloadHandler c1' = PacketConn_payloadHandler c2' \<and>
          PacketConn_genericOpt c1' = PacketConn_genericOpt c1 \<and>
          PacketConn_dgramOpt c1' = PacketConn_dgramOpt c1 \<and>
          PacketConn_genericOpt c2' = PacketConn_genericOpt c2 \<and>
          PacketConn_dgramOpt c2' = PacketConn_dgramOpt c2"
    by simp
next
  assume eq: "RawConn_packetHandler r1 = RawConn_packetHandler r2"
  obtain e ph' h' where fr: "\<And>c. RawConn_packetHandler c = RawConn_packetHandler r2 \<Longrightarrow>
      RawConn_call os m (Some c) h = (Ret (e, c\<lparr>RawConn_packetHandler := ph'\<rparr>), h')"
    using RawConn_call_frame [of "RawConn_packetHandler r2" os m h] by blast
  have "RawConn_call os m (Some r1) h = (Ret (e, r1\<lparr>RawConn_packetHandler := ph'\<rparr>), h')"
    and "RawConn_call os m (Some r2) h = (Ret (e, r2\<lparr>RawConn_packetHandler := ph'\<rparr>), h')"
    using fr eq by simp_all
  then show "\<exists>e h' r1' r2'.
          RawConn_call os m (Some r1) h = (Ret (e, r1'), h') \<and>
          RawConn_call os m (Some r2) h = (Ret (e, r2'), h') \<and>
          RawConn_packetHandler r1' = RawConn_packetHandler r2' \<and>
          RawConn_genericOpt r1' = RawConn_genericOpt r1 \<and>
          RawConn_dgramOpt r1' = RawConn_dgramOpt r1 \<and>
          RawConn_genericOpt r2' = RawConn_genericOpt r2 \<and>
          RawConn_dgramOpt r2' = RawConn_dgramOpt r2"
    by simp
qed

text \<open>
  C10, on the mock: two endpoints over the same control handler and different other
  fields.
\<close>

theorem methods_touch_only_their_control_handler_witness:
  "PacketConn_payloadHandler udp1_PacketConn = PacketConn_payloadHandler udp1_other \<and>
   udp1_PacketConn \<noteq> udp1_other \<and>
   PacketConn_call mock_os (SetControlMessage 3 True) (Some udp1_PacketConn) [] =
     (Ret (None, udp1_PacketConn\<lparr>PacketConn_payloadHandler :=
              \<lparr>payloadHandler_c = Some udp1, payloadHandler_rawOpt = 3\<rparr>\<rparr>),
      [CallSysfd udp1, CallSetControlMessage 1 3 True]) \<and>
   PacketConn_call mock_os (SetControlMessage 3 True) (Some udp1_other) [] =
     (Ret (None, udp1_other\<lparr>PacketConn_payloadHandler :=
              \<lparr>payloadHandler_c = Some udp1, payloadHandler_rawOpt = 3\<rparr>\<rparr>),
      [CallSysfd udp1, CallSetControlMessage 1 3 True]) \<and>
   RawConn_packetHandler ip7_RawConn = RawConn_packetHandler ip7_other \<and>
   ip7_RawConn \<noteq> ip7_other \<and>
   RawConn_call mock_os Close (Some ip7_RawConn) [] = (Ret (None, ip7_RawConn), [CallClose ip7]) \<and>
   RawConn_call mock_os Close (Some ip7_other) [] = (Ret (None, ip7_other), [CallClose ip7])"
  using methods_touch_only_their_control_handler [where ?c1.0 = udp1_PacketConn
      and ?c2.0 = udp1_other and os = mock_os and m = "SetControlMessage 3 True" and h = "[]"]
    methods_touch_only_their_control_handler [where ?r1.0 = ip7_RawConn
      and ?r2.0 = ip7_other and os = mock_os and m = Close and h = "[]"]
  by (simp add: mock_os_simps udp1_PacketConn_def udp1_other_def ip7_RawConn_def ip7_other_def
      udp1_def ip7_def is_closed_def packetHandler_conn_def IPConn_val_def
      setControlMessage_spec_def mock_sockopt_def)

end
